theory Spec2Isabelle
  imports Main "HOL-Library.Word"
begin

section \<open>Python values and exceptions\<close>

text \<open>
  The module \<^verbatim>\<open>process_ble_data/honeycomb_io.py\<close> works on dynamically typed data: the
  records returned by the Honeycomb client are nested dictionaries, the payload of a
  datapoint is whatever \<^verbatim>\<open>json.loads\<close> yields, and the cells of a pandas table are
  arbitrary objects. One datatype of Python values models all of it. \<open>PNone\<close> is
  Python's \<^verbatim>\<open>None\<close>, \<open>PNaN\<close> is the missing value pandas puts into a cell that no
  data fills, \<open>PFloat\<close> is an IEEE double given by its 64 bits, \<open>PDatetime\<close> is an
  instant (whether it is held as a Python datetime, a pandas timestamp or a string in
  Honeycomb's datetime format), and a dictionary is the list of its items in insertion order.
\<close>

datatype pyval =
    PNone
  | PNaN
  | PBool bool
  | PInt int
  | PFloat "64 word"
  | PStr string
  | PDatetime int
  | PList "pyval list"
  | PDict "(string \<times> pyval) list"

text \<open>
  Every \<^verbatim>\<open>raise\<close> of the module, and every exception that a Python or pandas operation
  of the module raises by itself, is a value. \<open>ExternalError\<close> is a failure of an external
  collaborator (the client, \<^verbatim>\<open>json\<close>, \<^verbatim>\<open>float\<close>, \<^verbatim>\<open>minimal_honeycomb\<close>), which the
  module lets through unchanged. A \<open>ValueError\<close> carries its message before formatting.
\<close>

datatype error =
    ValueError string
  | KeyError string
  | AttributeError string
  | TypeError string
  | ExternalError string

definition and_then :: "error + 'a \<Rightarrow> ('a \<Rightarrow> error + 'b) \<Rightarrow> error + 'b" where
  "and_then r f = (case r of Inl e \<Rightarrow> Inl e | Inr x \<Rightarrow> f x)"

text \<open>\<^verbatim>\<open>d.get(k)\<close>: the value under \<open>k\<close>, \<^verbatim>\<open>None\<close> when the key is absent; an object
  that is not a dictionary (\<^verbatim>\<open>None\<close> above all) has no \<^verbatim>\<open>get\<close>.\<close>

definition dict_get :: "(string \<times> pyval) list \<Rightarrow> string \<Rightarrow> pyval" where
  "dict_get kvs k = (case map_of kvs k of Some v \<Rightarrow> v | None \<Rightarrow> PNone)"

fun py_get :: "pyval \<Rightarrow> string \<Rightarrow> error + pyval" where
  "py_get (PDict kvs) k = Inr (dict_get kvs k)"
| "py_get v k = Inl (AttributeError ''get'')"

text \<open>\<^verbatim>\<open>d.get(k1).get(k2)\<close>\<close>

definition py_get2 :: "pyval \<Rightarrow> string \<Rightarrow> string \<Rightarrow> error + pyval" where
  "py_get2 d k1 k2 = and_then (py_get d k1) (\<lambda>x. py_get x k2)"

text \<open>A dictionary display \<^verbatim>\<open>{k1: e1, k2: e2, ...}\<close>: the expressions are evaluated in
  order, and the first one that raises ends the evaluation.\<close>

fun build_dict :: "(string \<times> (error + pyval)) list \<Rightarrow> error + (string \<times> pyval) list" where
  "build_dict [] = Inr []"
| "build_dict ((k, r) # rest) =
     and_then r (\<lambda>v. and_then (build_dict rest) (\<lambda>kvs. Inr ((k, v) # kvs)))"

section \<open>The external collaborators\<close>

text \<open>
  The client is the caller's \<^verbatim>\<open>MinimalHoneycombClient\<close>, or the one the module constructs
  from the connection credentials when \<^verbatim>\<open>client\<close> is \<^verbatim>\<open>None\<close>. The module uses one
  operation of it, \<^verbatim>\<open>bulk_query\<close>, which answers a call with a list of records or raises.
  Each function of the module returns, beside its result, the calls it made to the client
  with their answers, in order.
\<close>

record bulk_query_call =
  request_name :: string
  arguments :: pyval
  return_data :: "pyval list"
  id_field_name :: string
  chunk_size :: "int option"

record client =
  bulk_query :: "bulk_query_call \<Rightarrow> error + pyval list"

type_synonym trace = "(bulk_query_call \<times> (error + pyval list)) list"

type_synonym 'a io = "(error + 'a) \<times> trace"

definition bind_io :: "'a io \<Rightarrow> ('a \<Rightarrow> 'b io) \<Rightarrow> 'b io" where
  "bind_io m f =
     (case m of
        (Inl e, t) \<Rightarrow> (Inl e, t)
      | (Inr x, t) \<Rightarrow> (case f x of (r, t') \<Rightarrow> (r, t @ t')))"

definition no_io :: "error + 'a \<Rightarrow> 'a io" where
  "no_io r = (r, [])"

text \<open>
  The library functions the module calls and does not define: \<^verbatim>\<open>json.loads\<close>, the builtin
  \<^verbatim>\<open>float\<close>, \<^verbatim>\<open>pandas.to_datetime\<close> on a column, and \<^verbatim>\<open>filter_assignments\<close> and
  \<^verbatim>\<open>to_honeycomb_datetime\<close> of \<^verbatim>\<open>minimal_honeycomb\<close>. They are parameters of the model.
\<close>

record externals =
  json_loads :: "pyval \<Rightarrow> error + pyval"
  py_float :: "pyval \<Rightarrow> error + pyval"
  to_datetime :: "pyval list \<Rightarrow> error + pyval list"
  filter_assignments :: "pyval list \<Rightarrow> int option \<Rightarrow> int option \<Rightarrow> error + pyval list"
  to_honeycomb_datetime :: "int \<Rightarrow> pyval"

section \<open>The pandas operations the module uses\<close>

text \<open>
  A table is the name of its index, its column labels in order, and its rows in order; a
  row is its index label and its cells, each under its column label. Rows may repeat an
  index label.
\<close>

type_synonym row = "pyval \<times> (string \<times> pyval) list"

record dataframe =
  index_name :: "string option"
  columns :: "string list"
  rows :: "row list"

definition cell :: "(string \<times> pyval) list \<Rightarrow> string \<Rightarrow> pyval" where
  "cell kvs c = (case map_of kvs c of Some v \<Rightarrow> v | None \<Rightarrow> PNaN)"

definition range_index :: "nat \<Rightarrow> pyval list" where
  "range_index n = map (\<lambda>i. PInt (int i)) [0..<n]"

text \<open>\<^verbatim>\<open>pd.DataFrame(data)\<close> for a list of dictionaries that all have the same keys, as the
  two loops of the module build it. An empty list gives a table without columns.\<close>

definition DataFrame :: "(string \<times> pyval) list list \<Rightarrow> dataframe" where
  "DataFrame data =
     (case data of
        [] \<Rightarrow> \<lparr>index_name = None, columns = [], rows = []\<rparr>
      | d # _ \<Rightarrow>
          \<lparr>index_name = None,
           columns = map fst d,
           rows = zip (range_index (length data))
                      (map (\<lambda>r. map (\<lambda>c. (c, dict_get r c)) (map fst d)) data)\<rparr>)"

text \<open>\<^verbatim>\<open>df[c]\<close>\<close>

definition getitem :: "string \<Rightarrow> dataframe \<Rightarrow> error + pyval list" where
  "getitem c df =
     (if c \<in> set (columns df) then Inr (map (\<lambda>(i, kvs). cell kvs c) (rows df))
      else Inl (KeyError c))"

text \<open>\<^verbatim>\<open>df[c] = values\<close>: replaces the column, or appends it as the last one.\<close>

definition setitem :: "string \<Rightarrow> pyval list \<Rightarrow> dataframe \<Rightarrow> error + dataframe" where
  "setitem c vals df =
     (if length vals \<noteq> length (rows df) then
        Inl (ValueError ''Length of values does not match length of index'')
      else if c \<in> set (columns df) then
        Inr (df\<lparr>rows := map (\<lambda>((i, kvs), v). (i, map (\<lambda>(n, x). (n, if n = c then v else x)) kvs))
                           (zip (rows df) vals)\<rparr>)
      else
        Inr (df\<lparr>columns := columns df @ [c],
                rows := map (\<lambda>((i, kvs), v). (i, kvs @ [(c, v)])) (zip (rows df) vals)\<rparr>))"

text \<open>\<^verbatim>\<open>df.set_index(c)\<close>\<close>

definition set_index :: "string \<Rightarrow> dataframe \<Rightarrow> error + dataframe" where
  "set_index c df =
     (if c \<in> set (columns df) then
        Inr \<lparr>index_name = Some c,
             columns = filter (\<lambda>n. n \<noteq> c) (columns df),
             rows = map (\<lambda>(i, kvs). (cell kvs c, filter (\<lambda>(n, x). n \<noteq> c) kvs)) (rows df)\<rparr>
      else Inl (KeyError c))"

text \<open>\<^verbatim>\<open>df.reset_index()\<close>: the index becomes the first column.\<close>

definition reset_index :: "dataframe \<Rightarrow> error + dataframe" where
  "reset_index df =
     (let name = (case index_name df of Some n \<Rightarrow> n | None \<Rightarrow> ''index'') in
      if name \<in> set (columns df) then Inl (ValueError ''cannot insert, already exists'')
      else
        Inr \<lparr>index_name = None,
             columns = name # columns df,
             rows = zip (range_index (length (rows df)))
                        (map (\<lambda>(i, kvs). (name, i) # kvs) (rows df))\<rparr>)"

text \<open>\<^verbatim>\<open>df.reindex(columns=cols)\<close>: the listed columns in the listed order; a label that
  the table does not have gives a column of missing values.\<close>

definition reindex :: "string list \<Rightarrow> dataframe \<Rightarrow> dataframe" where
  "reindex cols df =
     df\<lparr>columns := cols,
        rows := map (\<lambda>(i, kvs). (i, map (\<lambda>c. (c, cell kvs c)) cols)) (rows df)\<rparr>"

text \<open>\<^verbatim>\<open>pd.concat((a, b))\<close>: the rows of \<open>a\<close>, then the rows of \<open>b\<close>, over the columns of
  \<open>a\<close> followed by those only \<open>b\<close> has.\<close>

definition concat_frames :: "dataframe \<Rightarrow> dataframe \<Rightarrow> dataframe" where
  "concat_frames a b =
     (let cols = columns a @ filter (\<lambda>c. c \<notin> set (columns a)) (columns b) in
      \<lparr>index_name = (if index_name a = index_name b then index_name a else None),
       columns = cols,
       rows = map (\<lambda>(i, kvs). (i, map (\<lambda>c. (c, cell kvs c)) cols)) (rows a @ rows b)\<rparr>)"

text \<open>
  \<^verbatim>\<open>left.join(right, on=c)\<close>, a left join of the column \<open>c\<close> of \<open>left\<close> against the index
  of \<open>right\<close>: a row of \<open>left\<close> is followed by the cells of every row of \<open>right\<close> whose
  index label equals its key, once per such row, and by missing values when there is none.
  Two missing keys equal each other, as in pandas.
\<close>

definition join_row :: "string \<Rightarrow> dataframe \<Rightarrow> row \<Rightarrow> row list" where
  "join_row c right r =
     (case r of (i, kvs) \<Rightarrow>
        (case filter (\<lambda>(ri, rkvs). ri = cell kvs c) (rows right) of
           [] \<Rightarrow> [(i, kvs @ map (\<lambda>n. (n, PNaN)) (columns right))]
         | ms \<Rightarrow> map (\<lambda>(ri, rkvs). (i, kvs @ rkvs)) ms))"

definition join :: "dataframe \<Rightarrow> dataframe \<Rightarrow> string \<Rightarrow> error + dataframe" where
  "join left right c =
     (if c \<notin> set (columns left) then Inl (KeyError c)
      else if set (columns left) \<inter> set (columns right) \<noteq> {} then
        Inl (ValueError ''columns overlap but no suffix specified'')
      else
        Inr \<lparr>index_name = index_name left,
             columns = columns left @ columns right,
             rows = concat (map (join_row c right) (rows left))\<rparr>)"

text \<open>\<^verbatim>\<open>index.unique().tolist()\<close>: the labels in the order of their first occurrence.\<close>

fun unique :: "pyval list \<Rightarrow> pyval list" where
  "unique [] = []"
| "unique (x # xs) = x # unique (filter (\<lambda>y. y \<noteq> x) xs)"

section \<open>Generic search helpers\<close>

text \<open>The keyword arguments that \<^verbatim>\<open>search_objects\<close> passes to \<^verbatim>\<open>client.bulk_query\<close>.\<close>

definition search_objects_call ::
  "string \<Rightarrow> pyval list \<Rightarrow> pyval list \<Rightarrow> string \<Rightarrow> int \<Rightarrow> bulk_query_call" where
  "search_objects_call request_name' query_list return_data' id_field_name' chunk_size' =
     \<lparr>request_name = request_name',
      arguments =
        PDict [(''query'',
          PDict [(''type'', PStr ''QueryExpression!''),
                 (''value'', PDict [(''operator'', PStr ''AND''),
                                    (''children'', PList query_list)])])],
      return_data = return_data',
      id_field_name = id_field_name',
      chunk_size = Some chunk_size'\<rparr>"

definition search_objects ::
  "client \<Rightarrow> string \<Rightarrow> pyval list \<Rightarrow> pyval list \<Rightarrow> string \<Rightarrow> int \<Rightarrow> pyval list io" where
  "search_objects cl request_name' query_list return_data' id_field_name' chunk_size' =
     (let call = search_objects_call request_name' query_list return_data' id_field_name'
                   chunk_size';
          result = bulk_query cl call
      in (result, [(call, result)]))"

definition search_ble_datapoints ::
  "client \<Rightarrow> pyval list \<Rightarrow> pyval list \<Rightarrow> int \<Rightarrow> pyval list io" where
  "search_ble_datapoints cl query_list return_data' chunk_size' =
     search_objects cl ''searchDatapoints'' query_list return_data' ''data_id'' chunk_size'"

definition search_assignments ::
  "client \<Rightarrow> pyval list \<Rightarrow> pyval list \<Rightarrow> int \<Rightarrow> pyval list io" where
  "search_assignments cl query_list return_data' chunk_size' =
     search_objects cl ''searchAssignments'' query_list return_data' ''assignment_id'' chunk_size'"

section \<open>Environment resolver\<close>

definition find_environments_call :: "pyval \<Rightarrow> bulk_query_call" where
  "find_environments_call environment_name =
     \<lparr>request_name = ''findEnvironments'',
      arguments = PDict [(''name'', PDict [(''type'', PStr ''String''),
                                           (''value'', environment_name)])],
      return_data = [PStr ''environment_id''],
      id_field_name = ''environment_id'',
      chunk_size = None\<rparr>"

definition fetch_environment_id :: "client \<Rightarrow> pyval \<Rightarrow> pyval \<Rightarrow> pyval io" where
  "fetch_environment_id cl environment_id environment_name =
     (if environment_id \<noteq> PNone then
        (if environment_name \<noteq> PNone then
           (Inl (ValueError
              ''If environment ID is specified, environment name cannot be specified''), [])
         else (Inr environment_id, []))
      else if environment_name \<noteq> PNone then
        (let call = find_environments_call environment_name;
             response = bulk_query cl call
         in
           (case response of
              Inl e \<Rightarrow> Inl e
            | Inr result \<Rightarrow>
                if length result = 0 then
                  Inl (ValueError ''No environments match environment name {}'')
                else if length result > 1 then
                  Inl (ValueError ''Multiple environments match environment name {}'')
                else py_get (result ! 0) ''environment_id'',
            [(call, response)]))
      else (Inr PNone, []))"

section \<open>Device assignment fetcher\<close>

definition assignment_query_list :: "pyval \<Rightarrow> pyval list" where
  "assignment_query_list environment_id =
     [PDict [(''field'', PStr ''environment''), (''operator'', PStr ''EQ''),
             (''value'', environment_id)],
      PDict [(''field'', PStr ''assigned_type''), (''operator'', PStr ''EQ''),
             (''value'', PStr ''DEVICE'')]]"

definition assignment_return_data :: "pyval list" where
  "assignment_return_data =
     [PStr ''assignment_id'', PStr ''start'', PStr ''end'',
      PDict [(''assigned'',
        PList [PDict [(''... on Device'',
          PList [PStr ''device_id'', PStr ''part_number'', PStr ''device_type'',
                 PStr ''name'', PStr ''tag_id'', PStr ''serial_number''])]])]]"

text \<open>The test of line 266: \<^verbatim>\<open>device_types is None or
  datum.get('assigned').get('device_type') in device_types\<close>.\<close>

definition device_type_requested :: "pyval list option \<Rightarrow> pyval \<Rightarrow> error + bool" where
  "device_type_requested device_types datum =
     (case device_types of
        None \<Rightarrow> Inr True
      | Some dts \<Rightarrow>
          and_then (py_get2 datum ''assigned'' ''device_type'') (\<lambda>t. Inr (t \<in> set dts)))"

text \<open>The dictionary of lines 267 to 275.\<close>

definition assignment_record :: "pyval \<Rightarrow> error + (string \<times> pyval) list" where
  "assignment_record datum =
     build_dict
       [(''assignment_id'', py_get datum ''assignment_id''),
        (''device_id'', py_get2 datum ''assigned'' ''device_id''),
        (''device_type'', py_get2 datum ''assigned'' ''device_type''),
        (''name'', py_get2 datum ''assigned'' ''name''),
        (''part_number'', py_get2 datum ''assigned'' ''part_number''),
        (''serial_number'', py_get2 datum ''assigned'' ''serial_number''),
        (''tag_id'', py_get2 datum ''assigned'' ''tag_id'')]"

text \<open>The loop of lines 264 to 275.\<close>

fun assignment_records ::
  "pyval list option \<Rightarrow> pyval list \<Rightarrow> error + (string \<times> pyval) list list" where
  "assignment_records device_types [] = Inr []"
| "assignment_records device_types (datum # rest) =
     and_then (device_type_requested device_types datum) (\<lambda>keep.
       if keep then
         and_then (assignment_record datum) (\<lambda>d.
           and_then (assignment_records device_types rest) (\<lambda>ds. Inr (d # ds)))
       else assignment_records device_types rest)"

definition assignment_return_columns :: "string list" where
  "assignment_return_columns =
     [''device_id'', ''device_type'', ''name'', ''part_number'', ''serial_number'', ''tag_id'']"

text \<open>Lines 288 to 290: the index name and the column labels get the prefix.\<close>

definition add_prefix :: "string option \<Rightarrow> dataframe \<Rightarrow> error + dataframe" where
  "add_prefix column_name_prefix df =
     (case column_name_prefix of
        None \<Rightarrow> Inr df
      | Some p \<Rightarrow>
          (case index_name df of
             None \<Rightarrow> Inl (TypeError ''can only concatenate str to str'')
           | Some n \<Rightarrow>
               Inr \<lparr>index_name = Some (p @ ''_'' @ n),
                    columns = map (\<lambda>c. p @ ''_'' @ c) (columns df),
                    rows = map (\<lambda>(i, kvs). (i, map (\<lambda>(c, v). (p @ ''_'' @ c, v)) kvs))
                               (rows df)\<rparr>))"

definition fetch_device_assignments ::
  "externals \<Rightarrow> client \<Rightarrow> pyval \<Rightarrow> int option \<Rightarrow> int option \<Rightarrow> pyval list option \<Rightarrow>
   string option \<Rightarrow> int \<Rightarrow> dataframe io" where
  "fetch_device_assignments ext cl environment_id start_time end_time device_types
       column_name_prefix chunk_size' =
     bind_io
       (search_assignments cl (assignment_query_list environment_id) assignment_return_data
          chunk_size')
       (\<lambda>result. no_io
          (and_then (filter_assignments ext result start_time end_time) (\<lambda>filtered_result.
           and_then (assignment_records device_types filtered_result) (\<lambda>data.
           and_then (set_index ''assignment_id'' (DataFrame data)) (\<lambda>assignments_df.
           add_prefix column_name_prefix
             (reindex assignment_return_columns assignments_df))))))"

section \<open>Datapoint fetcher\<close>

definition datapoint_query_list ::
  "externals \<Rightarrow> int option \<Rightarrow> int option \<Rightarrow> pyval list \<Rightarrow> pyval list" where
  "datapoint_query_list ext start_time end_time tag_assignment_ids =
     [PDict [(''field'', PStr ''source''), (''operator'', PStr ''IN''),
             (''values'', PList tag_assignment_ids)]]
     @ (case start_time of
          None \<Rightarrow> []
        | Some s \<Rightarrow>
            [PDict [(''field'', PStr ''timestamp''), (''operator'', PStr ''GTE''),
                    (''value'', to_honeycomb_datetime ext s)]])
     @ (case end_time of
          None \<Rightarrow> []
        | Some e \<Rightarrow>
            [PDict [(''field'', PStr ''timestamp''), (''operator'', PStr ''LTE''),
                    (''value'', to_honeycomb_datetime ext e)]])"

definition datapoint_return_data :: "pyval list" where
  "datapoint_return_data =
     [PStr ''data_id'', PStr ''timestamp'',
      PDict [(''source'',
        PList [PDict [(''... on Assignment'', PList [PStr ''assignment_id''])]])],
      PDict [(''file'', PList [PStr ''data''])]]"

text \<open>The body of the loop of lines 116 to 124.\<close>

definition datapoint_record :: "externals \<Rightarrow> pyval \<Rightarrow> error + (string \<times> pyval) list" where
  "datapoint_record ext datum =
     and_then (and_then (py_get2 datum ''file'' ''data'') (json_loads ext)) (\<lambda>data_dict.
       build_dict
         [(''data_id'', py_get datum ''data_id''),
          (''timestamp'', py_get datum ''timestamp''),
          (''tag_assignment_id'', py_get2 datum ''source'' ''assignment_id''),
          (''anchor_id'', py_get data_dict ''anchor_id''),
          (''rssi'', and_then (py_get data_dict ''rssi'') (py_float ext))])"

fun datapoint_records :: "externals \<Rightarrow> pyval list \<Rightarrow> error + (string \<times> pyval) list list" where
  "datapoint_records ext [] = Inr []"
| "datapoint_records ext (datum # rest) =
     and_then (datapoint_record ext datum) (\<lambda>d.
       and_then (datapoint_records ext rest) (\<lambda>ds. Inr (d # ds)))"

text \<open>Lines 129 to 131 and 132 to 134: a copy of the anchor assignment table, indexed by
  a new column \<^verbatim>\<open>anchor_id\<close> that repeats the column \<open>key_column\<close>.\<close>

definition anchor_ids_by :: "string \<Rightarrow> dataframe \<Rightarrow> error + dataframe" where
  "anchor_ids_by key_column anchor_assignments_df =
     and_then (reset_index anchor_assignments_df) (\<lambda>df.
     and_then (getitem key_column df) (\<lambda>vals.
     and_then (setitem ''anchor_id'' vals df) (\<lambda>df'.
     set_index ''anchor_id'' df')))"

text \<open>Lines 125 to 136: the table of the parsed datapoints, joined against the tag
  assignments and then against the anchor assignments under both of their keys.\<close>

definition join_datapoints ::
  "externals \<Rightarrow> (string \<times> pyval) list list \<Rightarrow> dataframe \<Rightarrow> dataframe \<Rightarrow> error + dataframe" where
  "join_datapoints ext data tag_assignments_df anchor_assignments_df =
     (let datapoints_df = DataFrame data in
      and_then (getitem ''timestamp'' datapoints_df) (\<lambda>ts.
      and_then (to_datetime ext ts) (\<lambda>ts'.
      and_then (setitem ''timestamp'' ts' datapoints_df) (\<lambda>datapoints_df.
      and_then (set_index ''data_id'' datapoints_df) (\<lambda>datapoints_df.
      and_then (join datapoints_df tag_assignments_df ''tag_assignment_id'') (\<lambda>datapoints_df.
      and_then (anchor_ids_by ''anchor_assignment_id'' anchor_assignments_df)
        (\<lambda>assignment_anchor_ids_df.
      and_then (anchor_ids_by ''anchor_device_id'' anchor_assignments_df)
        (\<lambda>device_anchor_ids_df.
      join datapoints_df (concat_frames assignment_anchor_ids_df device_anchor_ids_df)
        ''anchor_id''))))))))"

text \<open>Lines 137 to 152.\<close>

definition return_columns :: "bool \<Rightarrow> bool \<Rightarrow> bool \<Rightarrow> string list" where
  "return_columns return_tag_name return_tag_tag_id return_anchor_name =
     [''timestamp'', ''tag_assignment_id'', ''tag_device_id'']
     @ (if return_tag_name then [''tag_name''] else [])
     @ (if return_tag_tag_id then [''tag_tag_id''] else [])
     @ [''anchor_assignment_id'', ''anchor_device_id'']
     @ (if return_anchor_name then [''anchor_name''] else [])
     @ [''rssi'']"

text \<open>
  Lines 26 to 136 of \<^verbatim>\<open>fetch_ble_datapoints\<close>: the values that the local variables
  \<^verbatim>\<open>tag_assignments_df\<close>, \<^verbatim>\<open>anchor_assignments_df\<close>, \<^verbatim>\<open>result\<close> and \<^verbatim>\<open>datapoints_df\<close>
  have when line 137 is reached.
\<close>

definition fetch_ble_datapoints_locals ::
  "externals \<Rightarrow> client \<Rightarrow> int option \<Rightarrow> int option \<Rightarrow> pyval \<Rightarrow> pyval \<Rightarrow>
   pyval list option \<Rightarrow> pyval list option \<Rightarrow> int \<Rightarrow>
   (dataframe \<times> dataframe \<times> pyval list \<times> dataframe) io" where
  "fetch_ble_datapoints_locals ext cl start_time end_time environment_id environment_name
       tag_device_types anchor_device_types chunk_size' =
     bind_io (fetch_environment_id cl environment_id environment_name) (\<lambda>environment_id.
       if environment_id = PNone then (Inl (ValueError ''Must specify environment''), [])
       else
     bind_io (fetch_device_assignments ext cl environment_id start_time end_time
                tag_device_types (Some ''tag'') chunk_size') (\<lambda>tag_assignments_df.
     bind_io (fetch_device_assignments ext cl environment_id start_time end_time
                anchor_device_types (Some ''anchor'') chunk_size') (\<lambda>anchor_assignments_df.
     bind_io (search_ble_datapoints cl
                (datapoint_query_list ext start_time end_time
                   (unique (map fst (rows tag_assignments_df))))
                datapoint_return_data chunk_size') (\<lambda>result. no_io (
     and_then (datapoint_records ext result) (\<lambda>data.
     and_then (join_datapoints ext data tag_assignments_df anchor_assignments_df)
       (\<lambda>datapoints_df.
     Inr (tag_assignments_df, anchor_assignments_df, result, datapoints_df))))))))"

definition fetch_ble_datapoints ::
  "externals \<Rightarrow> client \<Rightarrow> int option \<Rightarrow> int option \<Rightarrow> pyval \<Rightarrow> pyval \<Rightarrow>
   bool \<Rightarrow> bool \<Rightarrow> bool \<Rightarrow> pyval list option \<Rightarrow> pyval list option \<Rightarrow> int \<Rightarrow>
   dataframe io" where
  "fetch_ble_datapoints ext cl start_time end_time environment_id environment_name
       return_tag_name return_tag_tag_id return_anchor_name
       tag_device_types anchor_device_types chunk_size' =
     bind_io (fetch_ble_datapoints_locals ext cl start_time end_time environment_id
                environment_name tag_device_types anchor_device_types chunk_size')
       (\<lambda>(tag_assignments_df, anchor_assignments_df, result, datapoints_df).
          no_io (Inr (reindex
            (return_columns return_tag_name return_tag_tag_id return_anchor_name)
            datapoints_df)))"

text \<open>The default values of \<^verbatim>\<open>tag_device_types\<close> and \<^verbatim>\<open>anchor_device_types\<close>.\<close>

definition default_tag_device_types :: "pyval list option" where
  "default_tag_device_types = Some [PStr ''BLETAG'']"

definition default_anchor_device_types :: "pyval list option" where
  "default_anchor_device_types = Some [PStr ''PIZERO'', PStr ''PI3'', PStr ''PI3WITHCAMERA'']"

section \<open>Notions used to state the properties\<close>

text \<open>The value of a key of a record of the service, and of a key of the device that an
  assignment record holds under \<^verbatim>\<open>assigned\<close>.\<close>

definition field :: "pyval \<Rightarrow> string \<Rightarrow> pyval" where
  "field d k = (case py_get d k of Inr v \<Rightarrow> v | Inl e \<Rightarrow> PNone)"

definition device_field :: "pyval \<Rightarrow> string \<Rightarrow> pyval" where
  "device_field d k = field (field d ''assigned'') k"

definition assignment_dict :: "pyval \<Rightarrow> (string \<times> pyval) list" where
  "assignment_dict datum =
     [(''assignment_id'', field datum ''assignment_id''),
      (''device_id'', device_field datum ''device_id''),
      (''device_type'', device_field datum ''device_type''),
      (''name'', device_field datum ''name''),
      (''part_number'', device_field datum ''part_number''),
      (''serial_number'', device_field datum ''serial_number''),
      (''tag_id'', device_field datum ''tag_id'')]"

text \<open>An assignment passes the device type filter when no list of device types is
  requested, or when its device type is in the requested list.\<close>

definition has_device_type :: "pyval list option \<Rightarrow> pyval \<Rightarrow> bool" where
  "has_device_type device_types datum =
     (case device_types of
        None \<Rightarrow> True
      | Some dts \<Rightarrow> device_field datum ''device_type'' \<in> set dts)"

definition prefixed :: "string option \<Rightarrow> string \<Rightarrow> string" where
  "prefixed column_name_prefix name =
     (case column_name_prefix of None \<Rightarrow> name | Some p \<Rightarrow> p @ ''_'' @ name)"

text \<open>The row of the assignment table that stands for an assignment: its assignment ID as
  the index label, and the six values of its device under the (prefixed) column labels.\<close>

definition assignment_row :: "string option \<Rightarrow> pyval \<Rightarrow> row" where
  "assignment_row column_name_prefix datum =
     (field datum ''assignment_id'',
      map (\<lambda>c. (prefixed column_name_prefix c, device_field datum c)) assignment_return_columns)"

definition assignment_table :: "string option \<Rightarrow> pyval list \<Rightarrow> dataframe" where
  "assignment_table column_name_prefix assignments =
     \<lparr>index_name = Some (prefixed column_name_prefix ''assignment_id''),
      columns = map (prefixed column_name_prefix) assignment_return_columns,
      rows = map (assignment_row column_name_prefix) assignments\<rparr>"

text \<open>The call by which \<^verbatim>\<open>fetch_device_assignments\<close> asks the client for the
  assignments of an environment.\<close>

definition assignments_call :: "pyval \<Rightarrow> int \<Rightarrow> bulk_query_call" where
  "assignments_call environment_id chunk_size' =
     search_objects_call ''searchAssignments'' (assignment_query_list environment_id)
       assignment_return_data ''assignment_id'' chunk_size'"

text \<open>
  Modelled from the spec: the time-window overlap filter \<^verbatim>\<open>filter_assignments\<close> of the
  external package \<^verbatim>\<open>minimal_honeycomb\<close>, whose code is not among the sources. The spec
  gives an assignment the time window \<open>[start, end)\<close> and has the fetcher keep the
  assignments that overlap the requested window \<open>[start, end)\<close>. Two such windows overlap
  when each starts before the other ends; a bound that is absent (\<^verbatim>\<open>None\<close>) leaves its
  side open.
\<close>

definition window_overlaps :: "int option \<Rightarrow> int option \<Rightarrow> pyval \<Rightarrow> bool" where
  "window_overlaps start_time end_time assignment =
     ((case (field assignment ''start'', end_time) of
         (PDatetime a, Some e) \<Rightarrow> a < e
       | _ \<Rightarrow> True) \<and>
      (case (start_time, field assignment ''end'') of
         (Some s, PDatetime b) \<Rightarrow> s < b
       | _ \<Rightarrow> True))"

definition overlap_filter :: "pyval list \<Rightarrow> int option \<Rightarrow> int option \<Rightarrow> error + pyval list" where
  "overlap_filter assignments start_time end_time =
     Inr (filter (window_overlaps start_time end_time) assignments)"

text \<open>What parsing makes of a datapoint record: the value that \<^verbatim>\<open>json.loads\<close> gives for
  its \<^verbatim>\<open>file.data\<close>, and the result of \<^verbatim>\<open>float\<close> on the \<^verbatim>\<open>rssi\<close> of that value.\<close>

definition payload :: "externals \<Rightarrow> pyval \<Rightarrow> pyval" where
  "payload ext datum =
     (case and_then (py_get2 datum ''file'' ''data'') (json_loads ext) of
        Inr v \<Rightarrow> v
      | Inl e \<Rightarrow> PNone)"

definition parsed_rssi :: "externals \<Rightarrow> pyval \<Rightarrow> pyval" where
  "parsed_rssi ext datum =
     (case py_float ext (field (payload ext datum) ''rssi'') of Inr v \<Rightarrow> v | Inl e \<Rightarrow> PNone)"

text \<open>The dictionary that the loop of lines 116 to 124 appends for a datapoint, and the
  row of the datapoint table that it becomes, \<open>t\<close> being its converted timestamp.\<close>

definition datapoint_dict :: "externals \<Rightarrow> pyval \<Rightarrow> (string \<times> pyval) list" where
  "datapoint_dict ext datum =
     [(''data_id'', field datum ''data_id''),
      (''timestamp'', field datum ''timestamp''),
      (''tag_assignment_id'', field (field datum ''source'') ''assignment_id''),
      (''anchor_id'', field (payload ext datum) ''anchor_id''),
      (''rssi'', parsed_rssi ext datum)]"

definition datapoint_row :: "externals \<Rightarrow> pyval \<times> pyval \<Rightarrow> row" where
  "datapoint_row ext p =
     (case p of (datum, t) \<Rightarrow>
       (field datum ''data_id'',
        [(''timestamp'', t),
         (''tag_assignment_id'', field (field datum ''source'') ''assignment_id''),
         (''anchor_id'', field (payload ext datum) ''anchor_id''),
         (''rssi'', parsed_rssi ext datum)]))"

text \<open>The table of lines 129 to 135: every anchor assignment once under its assignment
  ID and once under its device ID.\<close>

definition anchor_ids_row :: "string \<Rightarrow> pyval \<Rightarrow> row" where
  "anchor_ids_row key_column assignment =
     (let cells = (''anchor_assignment_id'', field assignment ''assignment_id'') #
                  snd (assignment_row (Some ''anchor'') assignment)
      in (cell cells key_column, cells))"

definition anchor_ids_table :: "pyval list \<Rightarrow> dataframe" where
  "anchor_ids_table assignments =
     \<lparr>index_name = Some ''anchor_id'',
      columns = ''anchor_assignment_id'' #
                map (prefixed (Some ''anchor'')) assignment_return_columns,
      rows = map (anchor_ids_row ''anchor_assignment_id'') assignments @
             map (anchor_ids_row ''anchor_device_id'') assignments\<rparr>"

text \<open>The call by which \<^verbatim>\<open>fetch_ble_datapoints\<close> asks the client for the datapoints.\<close>

definition datapoints_call ::
  "externals \<Rightarrow> int option \<Rightarrow> int option \<Rightarrow> pyval list \<Rightarrow> int \<Rightarrow> bulk_query_call" where
  "datapoints_call ext start_time end_time tag_assignment_ids chunk_size' =
     search_objects_call ''searchDatapoints''
       (datapoint_query_list ext start_time end_time tag_assignment_ids)
       datapoint_return_data ''data_id'' chunk_size'"

text \<open>The table \<^verbatim>\<open>datapoints_df\<close> after line 136.\<close>

definition joined_table :: "externals \<Rightarrow> pyval list \<Rightarrow> pyval list \<Rightarrow> (pyval \<times> pyval) list \<Rightarrow> dataframe" where
  "joined_table ext tags anchors datapoints =
     \<lparr>index_name = Some ''data_id'',
      columns = [''timestamp'', ''tag_assignment_id'', ''anchor_id'', ''rssi'']
                @ map (prefixed (Some ''tag'')) assignment_return_columns
                @ ''anchor_assignment_id'' #
                  map (prefixed (Some ''anchor'')) assignment_return_columns,
      rows = concat (map (join_row ''anchor_id'' (anchor_ids_table anchors))
               (concat (map (join_row ''tag_assignment_id'' (assignment_table (Some ''tag'') tags))
                  (map (datapoint_row ext) datapoints))))\<rparr>"

text \<open>A row of the anchor assignment table matches an anchor identifier by its
  assignment ID (its index label) or by its device ID. The anchor columns of a row of the
  result come from a row of the anchor assignment table when they repeat its values; they
  are empty when they hold missing values.\<close>

definition anchor_matches :: "pyval \<Rightarrow> row \<Rightarrow> bool" where
  "anchor_matches anchor_id anchor_row =
     (fst anchor_row = anchor_id \<or> cell (snd anchor_row) ''anchor_device_id'' = anchor_id)"

definition anchor_cells_from :: "bool \<Rightarrow> row \<Rightarrow> (string \<times> pyval) list \<Rightarrow> bool" where
  "anchor_cells_from return_anchor_name anchor_row cells =
     (cell cells ''anchor_assignment_id'' = fst anchor_row \<and>
      cell cells ''anchor_device_id'' = cell (snd anchor_row) ''anchor_device_id'' \<and>
      (return_anchor_name \<longrightarrow> cell cells ''anchor_name'' = cell (snd anchor_row) ''anchor_name''))"

definition anchor_cells_empty :: "(string \<times> pyval) list \<Rightarrow> bool" where
  "anchor_cells_empty cells =
     (cell cells ''anchor_assignment_id'' = PNaN \<and>
      cell cells ''anchor_device_id'' = PNaN \<and>
      cell cells ''anchor_name'' = PNaN)"

text \<open>The comparison that an operator of the service's query language stands for, on
  instants: \<open>operator_holds op t bound\<close> says that the timestamp \<open>t\<close> passes the filter
  \<^verbatim>\<open>timestamp op bound\<close>. A query list, whose filters the service joins by \<^verbatim>\<open>AND\<close>,
  admits a timestamp when each of its filters on the field \<^verbatim>\<open>timestamp\<close> does.\<close>

fun operator_holds :: "string \<Rightarrow> int \<Rightarrow> int \<Rightarrow> bool" where
  "operator_holds op t bound =
     (if op = ''LTE'' then t \<le> bound
      else if op = ''GTE'' then bound \<le> t
      else if op = ''LT'' then t < bound
      else if op = ''GT'' then bound < t
      else if op = ''EQ'' then t = bound
      else False)"

definition query_admits_timestamp :: "pyval list \<Rightarrow> int \<Rightarrow> bool" where
  "query_admits_timestamp query_list t =
     (\<forall>q\<in>set query_list.
        field q ''field'' = PStr ''timestamp'' \<longrightarrow>
        (case (field q ''operator'', field q ''value'') of
           (PStr op, PDatetime bound) \<Rightarrow> operator_holds op t bound
         | _ \<Rightarrow> False))"

text \<open>The number of rows that a datapoint has in the result. The join against the tag
  assignment table gives it one row for every row of that table whose assignment ID is its
  \<^verbatim>\<open>tag_assignment_id\<close>, and one row when there is none. The join against the anchor
  lookup table then gives each of these one row for every row of the anchor assignment
  table whose assignment ID is the parsed \<^verbatim>\<open>anchor_id\<close>, one more for every row whose
  device ID is it, and one row when there is none.\<close>

definition tag_match_count :: "dataframe \<Rightarrow> pyval \<Rightarrow> nat" where
  "tag_match_count tag_assignments_df datum =
     length (filter (\<lambda>r. fst r = field (field datum ''source'') ''assignment_id'')
               (rows tag_assignments_df))"

definition anchor_match_count :: "externals \<Rightarrow> dataframe \<Rightarrow> pyval \<Rightarrow> nat" where
  "anchor_match_count ext anchor_assignments_df datum =
     length (filter (\<lambda>r. fst r = field (payload ext datum) ''anchor_id'')
               (rows anchor_assignments_df)) +
     length (filter (\<lambda>r. cell (snd r) ''anchor_device_id'' =
                          field (payload ext datum) ''anchor_id'')
               (rows anchor_assignments_df))"

definition rows_of_datapoint :: "externals \<Rightarrow> dataframe \<Rightarrow> dataframe \<Rightarrow> pyval \<Rightarrow> nat" where
  "rows_of_datapoint ext tag_assignments_df anchor_assignments_df datum =
     max 1 (tag_match_count tag_assignments_df datum) *
     max 1 (anchor_match_count ext anchor_assignments_df datum)"

section \<open>A concrete service\<close>

text \<open>
  One environment with a tag and three anchor assignments, two of them of the same device
  one after the other, and three datapoints of the tag. The payload of a datapoint is
  reduced to the anchor identifier it names.
\<close>

definition example_device :: "string \<Rightarrow> pyval \<Rightarrow> pyval" where
  "example_device device_id device_type =
     PDict [(''device_id'', PStr device_id), (''part_number'', PNone),
            (''device_type'', device_type), (''name'', PStr (''name of '' @ device_id)),
            (''tag_id'', PNone), (''serial_number'', PNone)]"

definition example_assignment :: "string \<Rightarrow> int \<Rightarrow> pyval \<Rightarrow> pyval \<Rightarrow> pyval" where
  "example_assignment assignment_id start_time end_time device =
     PDict [(''assignment_id'', PStr assignment_id), (''start'', PDatetime start_time),
            (''end'', end_time), (''assigned'', device)]"

definition example_assignments :: "pyval list" where
  "example_assignments =
     [example_assignment ''t1'' 0 PNone (example_device ''b1'' (PStr ''BLETAG'')),
      example_assignment ''a1'' 0 (PDatetime 50) (example_device ''d1'' (PStr ''PI3'')),
      example_assignment ''a2'' 50 PNone (example_device ''d1'' (PStr ''PI3'')),
      example_assignment ''a3'' 0 (PDatetime 10) (example_device ''d3'' PNone)]"

definition example_datapoint :: "string \<Rightarrow> int \<Rightarrow> string \<Rightarrow> string \<Rightarrow> pyval" where
  "example_datapoint data_id t tag_assignment_id anchor =
     PDict [(''data_id'', PStr data_id), (''timestamp'', PDatetime t),
            (''source'', PDict [(''assignment_id'', PStr tag_assignment_id)]),
            (''file'', PDict [(''data'', PStr anchor)])]"

definition example_datapoints :: "pyval list" where
  "example_datapoints =
     [example_datapoint ''x1'' 20 ''t1'' ''d1'',
      example_datapoint ''x2'' 60 ''t1'' ''a2'',
      example_datapoint ''x3'' 70 ''t1'' ''zz'']"

definition example_client :: client where
  "example_client =
     \<lparr>bulk_query = (\<lambda>call.
        if request_name call = ''searchAssignments'' then Inr example_assignments
        else if request_name call = ''searchDatapoints'' then Inr example_datapoints
        else if request_name call = ''findEnvironments'' then
          (if arguments call = arguments (find_environments_call (PStr ''school'')) then
             Inr [PDict [(''environment_id'', PStr ''env-1'')]]
           else if arguments call = arguments (find_environments_call (PStr ''campus'')) then
             Inr [PDict [(''environment_id'', PStr ''env-2'')],
                  PDict [(''environment_id'', PStr ''env-3'')]]
           else Inr [])
        else Inl (ExternalError ''unknown request''))\<rparr>"

definition example_externals :: externals where
  "example_externals =
     \<lparr>json_loads = (\<lambda>v. case v of
         PStr s \<Rightarrow> Inr (PDict [(''anchor_id'', PStr s), (''rssi'', PInt (- 70))])
       | _ \<Rightarrow> Inl (TypeError ''the JSON object must be str, bytes or bytearray'')),
      py_float = (\<lambda>v. case v of
         PInt n \<Rightarrow> Inr (PInt n)
       | _ \<Rightarrow> Inl (TypeError ''float() argument must be a string or a real number'')),
      to_datetime = Inr,
      filter_assignments = overlap_filter,
      to_honeycomb_datetime = PDatetime\<rparr>"

text \<open>A run of \<^verbatim>\<open>fetch_ble_datapoints\<close> on the concrete service, with no time window and
  the anchor names asked for.\<close>

definition example_fetch :: "dataframe io" where
  "example_fetch =
     fetch_ble_datapoints example_externals example_client None None (PStr ''env-1'') PNone
       False False True default_tag_device_types default_anchor_device_types 100"

definition example_locals :: "(dataframe \<times> dataframe \<times> pyval list \<times> dataframe) io" where
  "example_locals =
     fetch_ble_datapoints_locals example_externals example_client None None (PStr ''env-1'')
       PNone default_tag_device_types default_anchor_device_types 100"

definition example_table :: dataframe where
  "example_table = projr (fst example_fetch)"

definition example_anchor_assignments_df :: dataframe where
  "example_anchor_assignments_df = fst (snd (projr (fst example_locals)))"

definition example_datapoints_df :: dataframe where
  "example_datapoints_df = snd (snd (snd (projr (fst example_locals))))"

section \<open>Lemmas about the model\<close>

lemma and_then_Inl [simp]: "and_then (Inl e) f = Inl e"
  by (simp add: and_then_def)

lemma and_then_Inr [simp]: "and_then (Inr x) f = f x"
  by (simp add: and_then_def)

lemma and_then_eq_Inr: "(and_then r f = Inr y) = (\<exists>x. r = Inr x \<and> f x = Inr y)"
  by (cases r) simp_all

lemma bind_io_eq_Inr:
  "(bind_io m f = (Inr y, t)) =
     (\<exists>x t1 t2. m = (Inr x, t1) \<and> f x = (Inr y, t2) \<and> t = t1 @ t2)"
  by (cases m; cases "fst m"; cases "f (projr (fst m))") (auto simp: bind_io_def)

lemma no_io_eq: "(no_io r = (r', t)) = (r = r' \<and> t = [])"
  by (auto simp: no_io_def)

lemma py_get_Inr_field: "py_get d k = Inr v \<Longrightarrow> field d k = v"
  by (simp add: field_def)

lemma py_get2_assigned: "py_get2 d ''assigned'' k = Inr v \<Longrightarrow> device_field d k = v"
  by (auto simp: py_get2_def and_then_eq_Inr device_field_def field_def)

lemma assignment_record_Inr:
  "assignment_record datum = Inr d \<Longrightarrow> d = assignment_dict datum"
  by (auto simp: assignment_record_def assignment_dict_def and_then_eq_Inr
           dest!: py_get2_assigned py_get_Inr_field)

lemma device_type_requested_Inr:
  "device_type_requested dts datum = Inr keep \<Longrightarrow> keep = has_device_type dts datum"
  by (auto simp: device_type_requested_def has_device_type_def and_then_eq_Inr
           split: option.splits dest!: py_get2_assigned)

lemma assignment_records_Inr:
  "assignment_records dts xs = Inr data \<Longrightarrow>
     data = map assignment_dict (filter (has_device_type dts) xs)"
proof (induction xs arbitrary: data)
  case Nil
  then show ?case by simp
next
  case (Cons x xs)
  from Cons.prems obtain keep where k: "device_type_requested dts x = Inr keep"
    and rest: "(if keep then
         and_then (assignment_record x) (\<lambda>d.
           and_then (assignment_records dts xs) (\<lambda>ds. Inr (d # ds)))
       else assignment_records dts xs) = Inr data"
    by (auto simp: and_then_eq_Inr)
  have keep: "keep = has_device_type dts x"
    using k by (rule device_type_requested_Inr)
  show ?case
  proof (cases keep)
    case True
    with rest obtain d ds where "assignment_record x = Inr d"
      "assignment_records dts xs = Inr ds" "data = d # ds"
      by (auto simp: and_then_eq_Inr)
    with Cons.IH [of ds] True keep show ?thesis
      by (auto dest: assignment_record_Inr)
  next
    case False
    with rest Cons.IH [of data] keep show ?thesis by auto
  qed
qed

lemma map_zip_snd:
  "length is = length xs \<Longrightarrow> map (\<lambda>(i, x). f x) (zip is xs) = map f xs"
  by (induction "is" xs rule: list_induct2) simp_all

lemma length_range_index [simp]: "length (range_index n) = n"
  by (simp add: range_index_def)

lemma assignment_dict_cells:
  "(''assignment_id'', dict_get (assignment_dict x) ''assignment_id'') #
     map (\<lambda>c. (c, dict_get (assignment_dict x) c)) assignment_return_columns
     = assignment_dict x"
  by (simp add: assignment_dict_def dict_get_def assignment_return_columns_def)

lemma assignment_dict_keys:
  "map fst (assignment_dict x) = ''assignment_id'' # assignment_return_columns"
  by (simp add: assignment_dict_def assignment_return_columns_def)

lemma DataFrame_assignments:
  "xs \<noteq> [] \<Longrightarrow>
   DataFrame (map assignment_dict xs) =
     \<lparr>index_name = None,
      columns = ''assignment_id'' # assignment_return_columns,
      rows = zip (range_index (length xs)) (map assignment_dict xs)\<rparr>"
  by (cases xs) (simp_all add: DataFrame_def assignment_dict_keys assignment_dict_cells o_def)

lemma DataFrame_Nil: "DataFrame [] = \<lparr>index_name = None, columns = [], rows = []\<rparr>"
  by (simp add: DataFrame_def)

lemma set_index_assignments:
  "xs \<noteq> [] \<Longrightarrow>
   set_index ''assignment_id'' (DataFrame (map assignment_dict xs)) =
     Inr \<lparr>index_name = Some ''assignment_id'',
          columns = assignment_return_columns,
          rows = map (assignment_row None) xs\<rparr>"
  by (simp add: DataFrame_assignments set_index_def map_zip_snd assignment_return_columns_def
        assignment_dict_def assignment_row_def cell_def prefixed_def)

lemma reindex_assignments:
  "reindex assignment_return_columns
     \<lparr>index_name = n, columns = assignment_return_columns,
      rows = map (assignment_row None) xs\<rparr> =
   \<lparr>index_name = n, columns = assignment_return_columns,
      rows = map (assignment_row None) xs\<rparr>"
  by (simp add: reindex_def assignment_return_columns_def assignment_row_def cell_def
        prefixed_def)

lemma add_prefix_assignments:
  "add_prefix pfx
     \<lparr>index_name = Some ''assignment_id'', columns = assignment_return_columns,
      rows = map (assignment_row None) xs\<rparr> = Inr (assignment_table pfx xs)"
  by (cases pfx) (simp_all add: add_prefix_def assignment_table_def assignment_row_def
        prefixed_def assignment_return_columns_def)

lemma assignments_df:
  "and_then (set_index ''assignment_id'' (DataFrame (map assignment_dict xs)))
     (\<lambda>df. add_prefix pfx (reindex assignment_return_columns df)) =
   (if xs = [] then Inl (KeyError ''assignment_id'') else Inr (assignment_table pfx xs))"
proof (cases "xs = []")
  case True
  then show ?thesis by (simp add: DataFrame_Nil set_index_def)
next
  case False
  then show ?thesis
    by (simp add: set_index_assignments reindex_assignments add_prefix_assignments)
qed

lemma search_assignments_eq:
  "search_assignments cl (assignment_query_list env) assignment_return_data cs =
     (bulk_query cl (assignments_call env cs),
      [(assignments_call env cs, bulk_query cl (assignments_call env cs))])"
  by (simp add: search_assignments_def search_objects_def assignments_call_def Let_def)

lemma fetch_device_assignments_Inr:
  assumes "fetch_device_assignments ext cl env s e dts pfx cs = (Inr df, tr)"
  obtains result filtered where
    "bulk_query cl (assignments_call env cs) = Inr result"
    "tr = [(assignments_call env cs, Inr result)]"
    "filter_assignments ext result s e = Inr filtered"
    "filter (has_device_type dts) filtered \<noteq> []"
    "df = assignment_table pfx (filter (has_device_type dts) filtered)"
proof -
  from assms obtain result data filtered where
    r: "bulk_query cl (assignments_call env cs) = Inr result"
       "tr = [(assignments_call env cs, Inr result)]"
    and f: "filter_assignments ext result s e = Inr filtered"
    and d: "assignment_records dts filtered = Inr data"
    and t: "and_then (set_index ''assignment_id'' (DataFrame data))
       (\<lambda>df. add_prefix pfx (reindex assignment_return_columns df)) = Inr df"
    unfolding fetch_device_assignments_def search_assignments_eq
    by (auto simp: bind_io_eq_Inr no_io_eq and_then_eq_Inr)
  from d have "data = map assignment_dict (filter (has_device_type dts) filtered)"
    by (rule assignment_records_Inr)
  with t have "filter (has_device_type dts) filtered \<noteq> []"
    "df = assignment_table pfx (filter (has_device_type dts) filtered)"
    by (auto simp: assignments_df split: if_splits)
  with r f that show thesis by blast
qed

lemma io_Inr_expand:
  "(case fst m of Inr x \<Rightarrow> True | Inl e \<Rightarrow> False) \<Longrightarrow> m = (Inr (projr (fst m)), snd m)"
  by (cases m; cases "fst m") auto

section \<open>Lemmas about the datapoint tables\<close>

lemma py_get2_Inr_field2: "py_get2 d k1 k2 = Inr v \<Longrightarrow> field (field d k1) k2 = v"
  by (auto simp: py_get2_def and_then_eq_Inr field_def)

lemma datapoint_record_Inr:
  assumes "datapoint_record ext datum = Inr d"
  shows "d = datapoint_dict ext datum"
proof -
  from assms obtain data_dict where
    p: "and_then (py_get2 datum ''file'' ''data'') (json_loads ext) = Inr data_dict"
    and b: "build_dict
         [(''data_id'', py_get datum ''data_id''),
          (''timestamp'', py_get datum ''timestamp''),
          (''tag_assignment_id'', py_get2 datum ''source'' ''assignment_id''),
          (''anchor_id'', py_get data_dict ''anchor_id''),
          (''rssi'', and_then (py_get data_dict ''rssi'') (py_float ext))] = Inr d"
    by (auto simp: datapoint_record_def and_then_eq_Inr)
  from p have pl: "payload ext datum = data_dict"
    by (simp add: payload_def)
  from b obtain v1 v2 v3 v4 v5 v6 where
    "py_get datum ''data_id'' = Inr v1" "py_get datum ''timestamp'' = Inr v2"
    "py_get2 datum ''source'' ''assignment_id'' = Inr v3"
    "py_get data_dict ''anchor_id'' = Inr v4"
    "py_get data_dict ''rssi'' = Inr v5" "py_float ext v5 = Inr v6"
    "d = [(''data_id'', v1), (''timestamp'', v2), (''tag_assignment_id'', v3),
          (''anchor_id'', v4), (''rssi'', v6)]"
    by (auto simp: and_then_eq_Inr)
  then show ?thesis
    by (simp add: datapoint_dict_def pl parsed_rssi_def py_get_Inr_field py_get2_Inr_field2)
qed

lemma datapoint_records_Inr:
  "datapoint_records ext xs = Inr data \<Longrightarrow> data = map (datapoint_dict ext) xs"
proof (induction xs arbitrary: data)
  case Nil
  then show ?case by simp
next
  case (Cons x xs)
  from Cons.prems obtain d ds where "datapoint_record ext x = Inr d"
    "datapoint_records ext xs = Inr ds" "data = d # ds"
    by (auto simp: and_then_eq_Inr)
  with Cons.IH [of ds] show ?case
    by (auto dest: datapoint_record_Inr)
qed

lemma datapoint_dict_keys:
  "map fst (datapoint_dict ext x) =
     [''data_id'', ''timestamp'', ''tag_assignment_id'', ''anchor_id'', ''rssi'']"
  by (simp add: datapoint_dict_def)

lemma datapoint_dict_cells:
  "[(''data_id'', dict_get (datapoint_dict ext x) ''data_id''),
    (''timestamp'', dict_get (datapoint_dict ext x) ''timestamp''),
    (''tag_assignment_id'', dict_get (datapoint_dict ext x) ''tag_assignment_id''),
    (''anchor_id'', dict_get (datapoint_dict ext x) ''anchor_id''),
    (''rssi'', dict_get (datapoint_dict ext x) ''rssi'')] = datapoint_dict ext x"
  by (simp add: datapoint_dict_def dict_get_def)

lemma DataFrame_datapoints:
  "xs \<noteq> [] \<Longrightarrow>
   DataFrame (map (datapoint_dict ext) xs) =
     \<lparr>index_name = None,
      columns = [''data_id'', ''timestamp'', ''tag_assignment_id'', ''anchor_id'', ''rssi''],
      rows = zip (range_index (length xs)) (map (datapoint_dict ext) xs)\<rparr>"
  by (cases xs) (simp_all add: DataFrame_def datapoint_dict_keys datapoint_dict_cells o_def)

lemma getitem_timestamp:
  "xs \<noteq> [] \<Longrightarrow>
   getitem ''timestamp'' (DataFrame (map (datapoint_dict ext) xs)) =
     Inr (map (\<lambda>x. field x ''timestamp'') xs)"
  by (simp add: DataFrame_datapoints getitem_def map_zip_snd datapoint_dict_def cell_def o_def)

lemma getitem_timestamp_Nil: "getitem ''timestamp'' (DataFrame []) = Inl (KeyError ''timestamp'')"
  by (simp add: DataFrame_Nil getitem_def)

lemma datapoint_rows:
  assumes "length is = length xs" "length ts = length xs"
  shows "map (\<lambda>(i, kvs). (cell kvs ''data_id'', filter (\<lambda>(n, x). n \<noteq> ''data_id'') kvs))
     (map (\<lambda>((i, kvs), v). (i, map (\<lambda>(n, x). (n, if n = ''timestamp'' then v else x)) kvs))
        (zip (zip is (map (datapoint_dict ext) xs)) ts)) =
   map (datapoint_row ext) (zip xs ts)"
proof (rule nth_equalityI)
  show "length (map (\<lambda>(i, kvs). (cell kvs ''data_id'', filter (\<lambda>(n, x). n \<noteq> ''data_id'') kvs))
     (map (\<lambda>((i, kvs), v). (i, map (\<lambda>(n, x). (n, if n = ''timestamp'' then v else x)) kvs))
        (zip (zip is (map (datapoint_dict ext) xs)) ts))) =
    length (map (datapoint_row ext) (zip xs ts))"
    using assms by simp
next
  fix i
  assume "i < length (map (\<lambda>(i, kvs). (cell kvs ''data_id'', filter (\<lambda>(n, x). n \<noteq> ''data_id'') kvs))
     (map (\<lambda>((i, kvs), v). (i, map (\<lambda>(n, x). (n, if n = ''timestamp'' then v else x)) kvs))
        (zip (zip is (map (datapoint_dict ext) xs)) ts)))"
  with assms have i: "i < length xs" "i < length ts" "i < length is"
    by simp_all
  then show "map (\<lambda>(i, kvs). (cell kvs ''data_id'', filter (\<lambda>(n, x). n \<noteq> ''data_id'') kvs))
     (map (\<lambda>((i, kvs), v). (i, map (\<lambda>(n, x). (n, if n = ''timestamp'' then v else x)) kvs))
        (zip (zip is (map (datapoint_dict ext) xs)) ts)) ! i =
    map (datapoint_row ext) (zip xs ts) ! i"
    by (simp add: datapoint_dict_def datapoint_row_def cell_def)
qed

lemma map_zip_with:
  "length is = length xs \<Longrightarrow>
   map (\<lambda>((i, x), v). (i, H x v)) (zip (zip is (map g xs)) (map h xs)) =
     zip is (map (\<lambda>x. H (g x) (h x)) xs)"
  by (induction "is" xs rule: list_induct2) simp_all

lemma map_zip_drop:
  "length is = length xs \<Longrightarrow>
   map (\<lambda>(i, x). K x) (zip is (map g xs)) = map (\<lambda>x. K (g x)) xs"
  by (induction "is" xs rule: list_induct2) simp_all

lemma anchor_columns:
  "map (prefixed (Some ''anchor'')) assignment_return_columns =
     [''anchor_device_id'', ''anchor_device_type'', ''anchor_name'',
      ''anchor_part_number'', ''anchor_serial_number'', ''anchor_tag_id'']"
  by (simp add: prefixed_def assignment_return_columns_def)

lemma tag_columns:
  "map (prefixed (Some ''tag'')) assignment_return_columns =
     [''tag_device_id'', ''tag_device_type'', ''tag_name'',
      ''tag_part_number'', ''tag_serial_number'', ''tag_tag_id'']"
  by (simp add: prefixed_def assignment_return_columns_def)

lemma anchor_row_cells:
  "snd (assignment_row (Some ''anchor'') a) =
     [(''anchor_device_id'', device_field a ''device_id''),
      (''anchor_device_type'', device_field a ''device_type''),
      (''anchor_name'', device_field a ''name''),
      (''anchor_part_number'', device_field a ''part_number''),
      (''anchor_serial_number'', device_field a ''serial_number''),
      (''anchor_tag_id'', device_field a ''tag_id'')]"
  by (simp add: assignment_row_def prefixed_def assignment_return_columns_def)

lemma tag_row_cells:
  "snd (assignment_row (Some ''tag'') a) =
     [(''tag_device_id'', device_field a ''device_id''),
      (''tag_device_type'', device_field a ''device_type''),
      (''tag_name'', device_field a ''name''),
      (''tag_part_number'', device_field a ''part_number''),
      (''tag_serial_number'', device_field a ''serial_number''),
      (''tag_tag_id'', device_field a ''tag_id'')]"
  by (simp add: assignment_row_def prefixed_def assignment_return_columns_def)

lemma fst_assignment_row [simp]: "fst (assignment_row p a) = field a ''assignment_id''"
  by (simp add: assignment_row_def)

lemma reset_index_anchor:
  "reset_index (assignment_table (Some ''anchor'') as) =
     Inr \<lparr>index_name = None,
          columns = ''anchor_assignment_id'' #
                    map (prefixed (Some ''anchor'')) assignment_return_columns,
          rows = zip (range_index (length as))
                   (map (\<lambda>a. (''anchor_assignment_id'', field a ''assignment_id'') #
                              snd (assignment_row (Some ''anchor'') a)) as)\<rparr>"
proof -
  have "map (\<lambda>(i, kvs). (''anchor_assignment_id'', i) # kvs)
          (map (assignment_row (Some ''anchor'')) as) =
        map (\<lambda>a. (''anchor_assignment_id'', field a ''assignment_id'') #
                              snd (assignment_row (Some ''anchor'') a)) as"
    by (simp add: split_def del: anchor_row_cells)
  then show ?thesis
    by (simp add: reset_index_def assignment_table_def anchor_columns Let_def
          prefixed_def [of "Some ''anchor''" "''assignment_id''"] del: map_map)
qed

lemma anchor_ids_by_eq:
  assumes "key = ''anchor_assignment_id'' \<or> key = ''anchor_device_id''"
  shows "anchor_ids_by key (assignment_table (Some ''anchor'') as) =
     Inr \<lparr>index_name = Some ''anchor_id'',
          columns = ''anchor_assignment_id'' #
                    map (prefixed (Some ''anchor'')) assignment_return_columns,
          rows = map (anchor_ids_row key) as\<rparr>"
proof -
  let ?g = "\<lambda>a. (''anchor_assignment_id'', field a ''assignment_id'') #
                              snd (assignment_row (Some ''anchor'') a)"
  let ?cols = "''anchor_assignment_id'' #
                    map (prefixed (Some ''anchor'')) assignment_return_columns"
  let ?df = "\<lparr>index_name = None, columns = ?cols,
          rows = zip (range_index (length as)) (map ?g as)\<rparr>"
  have k: "key \<in> set ?cols" "''anchor_id'' \<notin> set ?cols"
    using assms by (auto simp: anchor_columns)
  have g: "getitem key ?df = Inr (map (\<lambda>a. cell (?g a) key) as)"
    using k(1) by (simp add: getitem_def map_zip_drop del: list.map set_simps)
  have s: "setitem ''anchor_id'' (map (\<lambda>a. cell (?g a) key) as) ?df =
      Inr \<lparr>index_name = None, columns = ?cols @ [''anchor_id''],
        rows = zip (range_index (length as))
                 (map (\<lambda>a. ?g a @ [(''anchor_id'', cell (?g a) key)]) as)\<rparr>"
    using k(2) by (simp add: setitem_def map_zip_with del: list.map set_simps)
  have i: "set_index ''anchor_id'' \<lparr>index_name = None, columns = ?cols @ [''anchor_id''],
        rows = zip (range_index (length as))
                 (map (\<lambda>a. ?g a @ [(''anchor_id'', cell (?g a) key)]) as)\<rparr> =
      Inr \<lparr>index_name = Some ''anchor_id'', columns = ?cols,
          rows = map (anchor_ids_row key) as\<rparr>"
    using assms
    by (auto simp: set_index_def map_zip_drop anchor_columns anchor_row_cells
          anchor_ids_row_def cell_def Let_def)
  show ?thesis
    by (simp only: anchor_ids_by_def reset_index_anchor and_then_Inr g s i)
qed

lemma anchor_ids_row_cells:
  "snd (anchor_ids_row key a) =
     [(''anchor_assignment_id'', field a ''assignment_id''),
      (''anchor_device_id'', device_field a ''device_id''),
      (''anchor_device_type'', device_field a ''device_type''),
      (''anchor_name'', device_field a ''name''),
      (''anchor_part_number'', device_field a ''part_number''),
      (''anchor_serial_number'', device_field a ''serial_number''),
      (''anchor_tag_id'', device_field a ''tag_id'')]"
  by (simp add: anchor_ids_row_def Let_def anchor_row_cells)

lemma concat_anchor_ids:
  "concat_frames
     \<lparr>index_name = Some ''anchor_id'',
      columns = ''anchor_assignment_id'' #
                map (prefixed (Some ''anchor'')) assignment_return_columns,
      rows = map (anchor_ids_row k1) as\<rparr>
     \<lparr>index_name = Some ''anchor_id'',
      columns = ''anchor_assignment_id'' #
                map (prefixed (Some ''anchor'')) assignment_return_columns,
      rows = map (anchor_ids_row k2) as\<rparr> =
   \<lparr>index_name = Some ''anchor_id'',
      columns = ''anchor_assignment_id'' #
                map (prefixed (Some ''anchor'')) assignment_return_columns,
      rows = map (anchor_ids_row k1) as @ map (anchor_ids_row k2) as\<rparr>"
proof -
  have r: "(case anchor_ids_row k a of (i, kvs) \<Rightarrow> (i, map (\<lambda>c. (c, cell kvs c))
        [''anchor_assignment_id'', ''anchor_device_id'', ''anchor_device_type'', ''anchor_name'',
      ''anchor_part_number'', ''anchor_serial_number'', ''anchor_tag_id'']))
     = anchor_ids_row k a" for k a
    by (simp add: anchor_ids_row_def Let_def anchor_row_cells cell_def)
  show ?thesis
    using r by (simp add: concat_frames_def anchor_columns Let_def)
qed

lemma setitem_timestamp:
  assumes "xs \<noteq> []" "length ts = length xs"
  shows "setitem ''timestamp'' ts (DataFrame (map (datapoint_dict ext) xs)) =
    Inr \<lparr>index_name = None,
      columns = [''data_id'', ''timestamp'', ''tag_assignment_id'', ''anchor_id'', ''rssi''],
      rows = map (\<lambda>((i, kvs), v). (i, map (\<lambda>(n, x). (n, if n = ''timestamp'' then v else x)) kvs))
                (zip (zip (range_index (length xs)) (map (datapoint_dict ext) xs)) ts)\<rparr>"
  using assms by (simp add: DataFrame_datapoints setitem_def)

lemma setitem_timestamp_length:
  assumes "xs \<noteq> []" "length ts \<noteq> length xs"
  shows "setitem ''timestamp'' ts (DataFrame (map (datapoint_dict ext) xs)) =
    Inl (ValueError ''Length of values does not match length of index'')"
  using assms by (simp add: DataFrame_datapoints setitem_def)

lemma set_index_datapoints:
  assumes "length ts = length xs"
  shows "set_index ''data_id'' \<lparr>index_name = None,
      columns = [''data_id'', ''timestamp'', ''tag_assignment_id'', ''anchor_id'', ''rssi''],
      rows = map (\<lambda>((i, kvs), v). (i, map (\<lambda>(n, x). (n, if n = ''timestamp'' then v else x)) kvs))
                (zip (zip (range_index (length xs)) (map (datapoint_dict ext) xs)) ts)\<rparr> =
    Inr \<lparr>index_name = Some ''data_id'',
         columns = [''timestamp'', ''tag_assignment_id'', ''anchor_id'', ''rssi''],
         rows = map (datapoint_row ext) (zip xs ts)\<rparr>"
  using assms by (simp add: set_index_def datapoint_rows del: map_map)

lemma join_tag:
  "join \<lparr>index_name = Some ''data_id'',
         columns = [''timestamp'', ''tag_assignment_id'', ''anchor_id'', ''rssi''],
         rows = ds\<rparr> (assignment_table (Some ''tag'') tags) ''tag_assignment_id'' =
   Inr \<lparr>index_name = Some ''data_id'',
        columns = [''timestamp'', ''tag_assignment_id'', ''anchor_id'', ''rssi'']
                @ map (prefixed (Some ''tag'')) assignment_return_columns,
        rows = concat (map (join_row ''tag_assignment_id'' (assignment_table (Some ''tag'') tags))
                 ds)\<rparr>"
  by (simp add: join_def assignment_table_def tag_columns)

lemma join_anchor:
  "join \<lparr>index_name = Some ''data_id'',
        columns = [''timestamp'', ''tag_assignment_id'', ''anchor_id'', ''rssi'']
                @ map (prefixed (Some ''tag'')) assignment_return_columns,
        rows = ds\<rparr> (anchor_ids_table anchors) ''anchor_id'' =
   Inr \<lparr>index_name = Some ''data_id'',
      columns = [''timestamp'', ''tag_assignment_id'', ''anchor_id'', ''rssi'']
                @ map (prefixed (Some ''tag'')) assignment_return_columns
                @ ''anchor_assignment_id'' #
                  map (prefixed (Some ''anchor'')) assignment_return_columns,
      rows = concat (map (join_row ''anchor_id'' (anchor_ids_table anchors)) ds)\<rparr>"
  by (simp add: join_def anchor_ids_table_def tag_columns anchor_columns)

lemma anchor_ids_table_eq:
  "concat_frames
     \<lparr>index_name = Some ''anchor_id'',
      columns = ''anchor_assignment_id'' #
                map (prefixed (Some ''anchor'')) assignment_return_columns,
      rows = map (anchor_ids_row ''anchor_assignment_id'') as\<rparr>
     \<lparr>index_name = Some ''anchor_id'',
      columns = ''anchor_assignment_id'' #
                map (prefixed (Some ''anchor'')) assignment_return_columns,
      rows = map (anchor_ids_row ''anchor_device_id'') as\<rparr> = anchor_ids_table as"
  by (simp only: concat_anchor_ids anchor_ids_table_def)

lemma join_datapoints_eq:
  assumes "xs \<noteq> []"
    and "to_datetime ext (map (\<lambda>x. field x ''timestamp'') xs) = Inr ts"
    and "length ts = length xs"
  shows "join_datapoints ext (map (datapoint_dict ext) xs)
           (assignment_table (Some ''tag'') tags) (assignment_table (Some ''anchor'') as) =
         Inr (joined_table ext tags as (zip xs ts))"
  by (simp only: join_datapoints_def Let_def getitem_timestamp [OF assms(1)] assms(2)
        and_then_Inr setitem_timestamp [OF assms(1,3)] set_index_datapoints [OF assms(3)]
        join_tag anchor_ids_by_eq [OF disjI1 [OF refl]] anchor_ids_by_eq [OF disjI2 [OF refl]]
        anchor_ids_table_eq join_anchor joined_table_def)

lemma join_datapoints_Inr:
  assumes "join_datapoints ext (map (datapoint_dict ext) xs)
           (assignment_table (Some ''tag'') tags) (assignment_table (Some ''anchor'') as) = Inr J"
  obtains ts where "xs \<noteq> []" "to_datetime ext (map (\<lambda>x. field x ''timestamp'') xs) = Inr ts"
    "length ts = length xs" "J = joined_table ext tags as (zip xs ts)"
proof -
  have ne: "xs \<noteq> []"
  proof
    assume "xs = []"
    with assms show False
      by (simp add: join_datapoints_def Let_def getitem_timestamp_Nil)
  qed
  from assms obtain ts where ts: "to_datetime ext (map (\<lambda>x. field x ''timestamp'') xs) = Inr ts"
    by (cases "to_datetime ext (map (\<lambda>x. field x ''timestamp'') xs)")
       (simp_all add: join_datapoints_def Let_def getitem_timestamp [OF ne])
  have len: "length ts = length xs"
  proof (rule ccontr)
    assume "length ts \<noteq> length xs"
    with assms show False
      by (simp add: join_datapoints_def Let_def getitem_timestamp [OF ne] ts
            setitem_timestamp_length [OF ne])
  qed
  from assms have "J = joined_table ext tags as (zip xs ts)"
    by (simp add: join_datapoints_eq [OF ne ts len])
  with ne ts len that show thesis by blast
qed

lemma search_ble_datapoints_eq:
  "search_ble_datapoints cl (datapoint_query_list ext s e ids) datapoint_return_data cs =
     (bulk_query cl (datapoints_call ext s e ids cs),
      [(datapoints_call ext s e ids cs, bulk_query cl (datapoints_call ext s e ids cs))])"
  by (simp add: search_ble_datapoints_def search_objects_def datapoints_call_def Let_def)

lemma fetch_ble_datapoints_locals_Inr:
  assumes "fetch_ble_datapoints_locals ext cl s e environment_id environment_name
             tag_types anchor_types cs = (Inr (T, A, result, J), tr)"
  obtains env tags anchors ts tr' where
    "fetch_environment_id cl environment_id environment_name = (Inr env, tr')"
    "T = assignment_table (Some ''tag'') tags" "tags \<noteq> []"
    "fetch_device_assignments ext cl env s e anchor_types (Some ''anchor'') cs =
       (Inr A, [(assignments_call env cs, bulk_query cl (assignments_call env cs))])"
    "A = assignment_table (Some ''anchor'') anchors" "anchors \<noteq> []"
    "result \<noteq> []"
    "to_datetime ext (map (\<lambda>x. field x ''timestamp'') result) = Inr ts"
    "length ts = length result"
    "J = joined_table ext tags anchors (zip result ts)"
    "tr = tr' @ [(assignments_call env cs, bulk_query cl (assignments_call env cs)),
                 (assignments_call env cs, bulk_query cl (assignments_call env cs)),
                 (datapoints_call ext s e (unique (map fst (rows T))) cs, Inr result)]"
proof -
  from assms obtain env tr1 tr2 tr3 data where
    env: "fetch_environment_id cl environment_id environment_name = (Inr env, tr1)"
    and T: "fetch_device_assignments ext cl env s e tag_types (Some ''tag'') cs = (Inr T, tr2)"
    and A: "fetch_device_assignments ext cl env s e anchor_types (Some ''anchor'') cs = (Inr A, tr3)"
    and r: "bulk_query cl (datapoints_call ext s e (unique (map fst (rows T))) cs) = Inr result"
    and d: "datapoint_records ext result = Inr data"
    and j: "join_datapoints ext data T A = Inr J"
    and tr: "tr = tr1 @ tr2 @ tr3 @
       [(datapoints_call ext s e (unique (map fst (rows T))) cs, Inr result)]"
    unfolding fetch_ble_datapoints_locals_def search_ble_datapoints_eq
    by (auto simp: bind_io_eq_Inr no_io_eq and_then_eq_Inr split: if_splits)
  from T obtain tags where tags: "T = assignment_table (Some ''tag'') tags" "tags \<noteq> []"
    and tr2: "tr2 = [(assignments_call env cs, bulk_query cl (assignments_call env cs))]"
    by (rule fetch_device_assignments_Inr) auto
  from A obtain anchors where anchors: "A = assignment_table (Some ''anchor'') anchors"
      "anchors \<noteq> []"
    and tr3: "tr3 = [(assignments_call env cs, bulk_query cl (assignments_call env cs))]"
    by (rule fetch_device_assignments_Inr) auto
  from d have "data = map (datapoint_dict ext) result"
    by (rule datapoint_records_Inr)
  with j tags anchors obtain ts where "result \<noteq> []"
    "to_datetime ext (map (\<lambda>x. field x ''timestamp'') result) = Inr ts"
    "length ts = length result" "J = joined_table ext tags anchors (zip result ts)"
    by (auto elim: join_datapoints_Inr)
  with env tags anchors A tr tr2 tr3 that show thesis
    by simp
qed

lemma join_row_not_Nil: "join_row c R r \<noteq> []"
  by (cases r) (simp add: join_row_def split: list.splits)

lemma length_concat_join_row:
  "length rs \<le> length (concat (map (join_row c R) rs))"
proof (induction rs)
  case Nil
  then show ?case by simp
next
  case (Cons r rs)
  have "1 \<le> length (join_row c R r)"
    using join_row_not_Nil [of c R r] by (cases "join_row c R r") simp_all
  with Cons show ?case by simp
qed

lemma filter_distinct_keys:
  "distinct (map fst xs) \<Longrightarrow> length (filter (\<lambda>(ri, rkvs). ri = k) xs) \<le> 1"
proof (induction xs)
  case Nil
  then show ?case by simp
next
  case (Cons x xs)
  show ?case
  proof (cases "fst x = k")
    case True
    with Cons.prems have "k \<notin> fst ` set xs" by auto
    then have "filter (\<lambda>(ri, rkvs). ri = k) xs = []"
      by (force simp: filter_empty_conv)
    with True show ?thesis by (cases x) simp
  next
    case False
    with Cons show ?thesis by (cases x) simp
  qed
qed

lemma join_row_distinct:
  assumes "distinct (map fst (rows R))"
  shows "map fst (join_row c R r) = [fst r]"
proof (cases r)
  case (Pair i kvs)
  let ?ms = "filter (\<lambda>(ri, rkvs). ri = cell kvs c) (rows R)"
  have "length ?ms \<le> 1"
    using assms by (rule filter_distinct_keys)
  then consider "?ms = []" | m where "?ms = [m]"
    by (cases ?ms) (auto simp: Suc_le_eq)
  then show ?thesis
  proof cases
    case 1
    with Pair show ?thesis by (simp add: join_row_def)
  next
    case 2
    with Pair show ?thesis by (cases m) (simp add: join_row_def)
  qed
qed

lemma concat_join_row_distinct:
  assumes "distinct (map fst (rows R))"
  shows "map fst (concat (map (join_row c R) rs)) = map fst rs"
  by (induction rs) (simp_all add: join_row_distinct [OF assms])

lemma rows_reindex: "map fst (rows (reindex cols df)) = map fst (rows df)"
  by (simp add: reindex_def split_def)

lemma length_rows_reindex [simp]: "length (rows (reindex cols df)) = length (rows df)"
  by (simp add: reindex_def)

lemma fst_datapoint_row: "fst (datapoint_row ext (x, t)) = field x ''data_id''"
  by (simp add: datapoint_row_def)

lemma map_fst_datapoint_rows:
  "length xs = length ts \<Longrightarrow>
   map fst (map (datapoint_row ext) (zip xs ts)) = map (\<lambda>x. field x ''data_id'') xs"
  by (induction xs ts rule: list_induct2) (simp_all add: fst_datapoint_row)

lemma fetch_ble_datapoints_Inr:
  "(fetch_ble_datapoints ext cl s e environment_id environment_name f1 f2 f3
      tag_types anchor_types cs = (Inr out, tr)) =
   (\<exists>T A result J.
      fetch_ble_datapoints_locals ext cl s e environment_id environment_name
        tag_types anchor_types cs = (Inr (T, A, result, J), tr) \<and>
      out = reindex (return_columns f1 f2 f3) J)"
  by (auto simp: fetch_ble_datapoints_def bind_io_eq_Inr no_io_eq)

lemma rows_anchor_ids_keys:
  "map fst (rows (anchor_ids_table as)) =
     map fst (rows (assignment_table (Some ''anchor'') as)) @
     map (\<lambda>r. cell (snd r) ''anchor_device_id'') (rows (assignment_table (Some ''anchor'') as))"
  by (simp add: anchor_ids_table_def assignment_table_def anchor_ids_row_def Let_def
        anchor_row_cells cell_def o_def)

lemma locals_Inr_expand:
  "(case fst m of Inr x \<Rightarrow> True | Inl e \<Rightarrow> False) \<Longrightarrow>
   m = (Inr (fst (projr (fst m)), fst (snd (projr (fst m))), fst (snd (snd (projr (fst m)))),
             snd (snd (snd (projr (fst m))))), snd m)"
  by (cases m; cases "fst m") auto

lemma join_row_cases:
  assumes "j \<in> set (join_row c R r)"
  shows "fst j = fst r \<and>
    ((\<exists>m\<in>set (rows R). fst m = cell (snd r) c \<and> snd j = snd r @ snd m) \<or>
     ((\<forall>m\<in>set (rows R). fst m \<noteq> cell (snd r) c) \<and>
      snd j = snd r @ map (\<lambda>n. (n, PNaN)) (columns R)))"
proof (cases r)
  case (Pair i kvs)
  let ?ms = "filter (\<lambda>(ri, rkvs). ri = cell kvs c) (rows R)"
  show ?thesis
  proof (cases "?ms = []")
    case True
    then have "\<forall>m\<in>set (rows R). fst m \<noteq> cell kvs c"
      by (auto simp: filter_empty_conv)
    with assms Pair True show ?thesis
      by (simp add: join_row_def)
  next
    case False
    then obtain m0 ms where ms: "?ms = m0 # ms" by (cases ?ms) auto
    with assms Pair have "j \<in> set (map (\<lambda>(ri, rkvs). (i, kvs @ rkvs)) ?ms)"
      by (simp add: join_row_def)
    then obtain m where "m \<in> set ?ms" "j = (i, kvs @ snd m)"
      by (auto simp: split_def)
    then have "m \<in> set (rows R)" "fst m = cell kvs c" "j = (i, kvs @ snd m)"
      by auto
    with Pair show ?thesis by auto
  qed
qed

lemma cell_append:
  "cell (xs @ ys) c = (if c \<in> set (map fst xs) then cell xs c else cell ys c)"
proof (cases "map_of xs c")
  case None
  then have "c \<notin> set (map fst xs)"
    by (simp add: map_of_eq_None_iff)
  with None show ?thesis
    by (simp add: cell_def map_add_def)
next
  case (Some v)
  then have "c \<in> set (map fst xs)"
    using map_of_eq_None_iff [of xs c] by auto
  with Some show ?thesis
    by (simp add: cell_def map_add_def)
qed

lemma cell_reindex:
  "cell (map (\<lambda>c. (c, f c)) cols) c = (if c \<in> set cols then f c else PNaN)"
  by (induction cols) (auto simp: cell_def)

lemma tag_join_cells:
  assumes "r \<in> set (join_row ''tag_assignment_id'' (assignment_table (Some ''tag'') tags) d)"
  shows "fst r = fst d \<and> (\<exists>ys. snd r = snd d @ ys \<and>
      map fst ys = [''tag_device_id'', ''tag_device_type'', ''tag_name'',
         ''tag_part_number'', ''tag_serial_number'', ''tag_tag_id''])"
proof -
  from join_row_cases [OF assms] have f: "fst r = fst d"
    and c: "(\<exists>m\<in>set (rows (assignment_table (Some ''tag'') tags)). snd r = snd d @ snd m) \<or>
       snd r = snd d @ map (\<lambda>n. (n, PNaN)) (columns (assignment_table (Some ''tag'') tags))"
    by auto
  from c have "\<exists>ys. snd r = snd d @ ys \<and>
      map fst ys = [''tag_device_id'', ''tag_device_type'', ''tag_name'',
         ''tag_part_number'', ''tag_serial_number'', ''tag_tag_id'']"
  proof
    assume "\<exists>m\<in>set (rows (assignment_table (Some ''tag'') tags)). snd r = snd d @ snd m"
    then obtain a where a: "snd r = snd d @ snd (assignment_row (Some ''tag'') a)"
      by (auto simp: assignment_table_def)
    show ?thesis
      by (rule exI [of _ "snd (assignment_row (Some ''tag'') a)"])
         (simp add: a tag_row_cells)
  next
    assume n: "snd r = snd d @
      map (\<lambda>n. (n, PNaN)) (columns (assignment_table (Some ''tag'') tags))"
    show ?thesis
      by (rule exI [of _ "map (\<lambda>n. (n, PNaN))
            (columns (assignment_table (Some ''tag'') tags))"])
         (simp add: n assignment_table_def tag_columns)
  qed
  with f show ?thesis by (rule conjI)
qed

lemma tagged_row:
  assumes "r \<in> set (concat (map (join_row ''tag_assignment_id''
              (assignment_table (Some ''tag'') tags)) (map (datapoint_row ext) dps)))"
  obtains x t where "(x, t) \<in> set dps" "fst r = field x ''data_id''"
      "cell (snd r) ''anchor_id'' = field (payload ext x) ''anchor_id''"
      "map fst (snd r) =
        [''timestamp'', ''tag_assignment_id'', ''anchor_id'', ''rssi'',
         ''tag_device_id'', ''tag_device_type'', ''tag_name'',
         ''tag_part_number'', ''tag_serial_number'', ''tag_tag_id'']"
proof -
  from assms obtain x t where xt: "(x, t) \<in> set dps"
    and r: "r \<in> set (join_row ''tag_assignment_id'' (assignment_table (Some ''tag'') tags)
                      (datapoint_row ext (x, t)))"
    by auto
  let ?d = "datapoint_row ext (x, t)"
  have d: "snd ?d = [(''timestamp'', t),
         (''tag_assignment_id'', field (field x ''source'') ''assignment_id''),
         (''anchor_id'', field (payload ext x) ''anchor_id''),
         (''rssi'', parsed_rssi ext x)]" "fst ?d = field x ''data_id''"
    by (simp_all add: datapoint_row_def)
  from tag_join_cells [OF r] obtain ys where f: "fst r = fst ?d"
    and ys: "snd r = snd ?d @ ys"
      "map fst ys = [''tag_device_id'', ''tag_device_type'', ''tag_name'',
         ''tag_part_number'', ''tag_serial_number'', ''tag_tag_id'']"
    by (elim conjE exE)
  have k: "cell (snd r) ''anchor_id'' = field (payload ext x) ''anchor_id''"
    by (simp add: ys(1) d(1) cell_def)
  have s: "map fst (snd r) =
        [''timestamp'', ''tag_assignment_id'', ''anchor_id'', ''rssi'',
         ''tag_device_id'', ''tag_device_type'', ''tag_name'',
         ''tag_part_number'', ''tag_serial_number'', ''tag_tag_id'']"
    by (simp add: ys d(1))
  from xt f k s show thesis
    by (simp only: d(2) that)
qed

lemma anchor_ids_row_fst:
  "fst (anchor_ids_row ''anchor_assignment_id'' a) = field a ''assignment_id''"
  "fst (anchor_ids_row ''anchor_device_id'' a) = device_field a ''device_id''"
  by (simp_all add: anchor_ids_row_def Let_def anchor_row_cells cell_def)

lemma anchor_row_facts:
  "cell (snd (assignment_row (Some ''anchor'') a)) ''anchor_device_id'' =
     device_field a ''device_id''"
  "cell (snd (assignment_row (Some ''anchor'') a)) ''anchor_name'' = device_field a ''name''"
  by (simp_all add: anchor_row_cells cell_def)

lemma anchor_ids_row_facts:
  "cell (snd (anchor_ids_row key a)) ''anchor_assignment_id'' = field a ''assignment_id''"
  "cell (snd (anchor_ids_row key a)) ''anchor_device_id'' = device_field a ''device_id''"
  "cell (snd (anchor_ids_row key a)) ''anchor_name'' = device_field a ''name''"
  by (simp_all add: anchor_ids_row_cells cell_def)

lemma anchor_join_cells:
  assumes "snd j = xs @ ys"
    and "map fst xs =
        [''timestamp'', ''tag_assignment_id'', ''anchor_id'', ''rssi'',
         ''tag_device_id'', ''tag_device_type'', ''tag_name'',
         ''tag_part_number'', ''tag_serial_number'', ''tag_tag_id'']"
  shows "cell (snd j) ''anchor_id'' = cell xs ''anchor_id''"
    and "cell (snd j) ''anchor_assignment_id'' = cell ys ''anchor_assignment_id''"
    and "cell (snd j) ''anchor_device_id'' = cell ys ''anchor_device_id''"
    and "cell (snd j) ''anchor_name'' = cell ys ''anchor_name''"
  by (simp_all add: assms cell_append)

lemma anchor_ids_rows:
  "m \<in> set (rows (anchor_ids_table anchors)) \<Longrightarrow>
   \<exists>a\<in>set anchors. m = anchor_ids_row ''anchor_assignment_id'' a \<or>
                     m = anchor_ids_row ''anchor_device_id'' a"
  by (auto simp: anchor_ids_table_def)

lemma anchor_ids_rows_mem:
  "a \<in> set anchors \<Longrightarrow>
   anchor_ids_row ''anchor_assignment_id'' a \<in> set (rows (anchor_ids_table anchors)) \<and>
   anchor_ids_row ''anchor_device_id'' a \<in> set (rows (anchor_ids_table anchors))"
  by (simp add: anchor_ids_table_def)

lemma anchor_matches_row:
  "anchor_matches k (assignment_row (Some ''anchor'') a) =
     (field a ''assignment_id'' = k \<or> device_field a ''device_id'' = k)"
  by (simp add: anchor_matches_def anchor_row_facts)

lemma anchor_cells_from_row:
  "anchor_cells_from True (assignment_row (Some ''anchor'') a) cells =
     (cell cells ''anchor_assignment_id'' = field a ''assignment_id'' \<and>
      cell cells ''anchor_device_id'' = device_field a ''device_id'' \<and>
      cell cells ''anchor_name'' = device_field a ''name'')"
  by (simp add: anchor_cells_from_def anchor_row_facts)

lemma nan_anchor_cells:
  "cell (map (\<lambda>n. (n, PNaN)) (columns (anchor_ids_table anchors))) c = PNaN"
  by (simp add: cell_reindex)

lemma joined_row_anchor:
  assumes j: "j \<in> set (join_row ''anchor_id'' (anchor_ids_table anchors) r)"
    and s: "map fst (snd r) =
        [''timestamp'', ''tag_assignment_id'', ''anchor_id'', ''rssi'',
         ''tag_device_id'', ''tag_device_type'', ''tag_name'',
         ''tag_part_number'', ''tag_serial_number'', ''tag_tag_id'']"
  shows "fst j = fst r \<and> cell (snd j) ''anchor_id'' = cell (snd r) ''anchor_id'' \<and>
    ((\<exists>a\<in>set anchors.
        anchor_matches (cell (snd j) ''anchor_id'') (assignment_row (Some ''anchor'') a) \<and>
        anchor_cells_from True (assignment_row (Some ''anchor'') a) (snd j))
     \<or> ((\<forall>a\<in>set anchors.
            \<not> anchor_matches (cell (snd j) ''anchor_id'') (assignment_row (Some ''anchor'') a))
         \<and> anchor_cells_empty (snd j)))"
proof -
  let ?k = "cell (snd r) ''anchor_id''"
  from join_row_cases [OF j] have fj: "fst j = fst r"
    and c: "(\<exists>m\<in>set (rows (anchor_ids_table anchors)). fst m = ?k \<and> snd j = snd r @ snd m) \<or>
     ((\<forall>m\<in>set (rows (anchor_ids_table anchors)). fst m \<noteq> ?k) \<and>
      snd j = snd r @ map (\<lambda>n. (n, PNaN)) (columns (anchor_ids_table anchors)))"
    by simp_all
  from c show ?thesis
  proof
    assume "\<exists>m\<in>set (rows (anchor_ids_table anchors)). fst m = ?k \<and> snd j = snd r @ snd m"
    then obtain m where m: "m \<in> set (rows (anchor_ids_table anchors))"
      "fst m = ?k" "snd j = snd r @ snd m"
      by (elim bexE conjE)
    from anchor_ids_rows [OF m(1)] obtain a where a: "a \<in> set anchors"
      and ma: "m = anchor_ids_row ''anchor_assignment_id'' a \<or>
               m = anchor_ids_row ''anchor_device_id'' a"
      by (elim bexE)
    note cells = anchor_join_cells [OF m(3) s]
    from ma m(2) have "field a ''assignment_id'' = ?k \<or> device_field a ''device_id'' = ?k"
      by (auto simp: anchor_ids_row_fst)
    then have 1: "anchor_matches (cell (snd j) ''anchor_id'') (assignment_row (Some ''anchor'') a)"
      by (simp only: anchor_matches_row cells(1))
    from ma have 2: "anchor_cells_from True (assignment_row (Some ''anchor'') a) (snd j)"
      by (auto simp only: anchor_cells_from_row cells anchor_ids_row_facts)
    from a 1 2 have "\<exists>a\<in>set anchors.
        anchor_matches (cell (snd j) ''anchor_id'') (assignment_row (Some ''anchor'') a) \<and>
        anchor_cells_from True (assignment_row (Some ''anchor'') a) (snd j)"
      by (intro bexI [of _ a] conjI)
    with fj cells(1) show ?thesis by (intro conjI disjI1)
  next
    assume n: "(\<forall>m\<in>set (rows (anchor_ids_table anchors)). fst m \<noteq> ?k) \<and>
      snd j = snd r @ map (\<lambda>n. (n, PNaN)) (columns (anchor_ids_table anchors))"
    note cells = anchor_join_cells [OF conjunct2 [OF n] s]
    have 1: "\<forall>a\<in>set anchors.
        \<not> anchor_matches (cell (snd j) ''anchor_id'') (assignment_row (Some ''anchor'') a)"
    proof
      fix a
      assume "a \<in> set anchors"
      with n anchor_ids_rows_mem [of a anchors]
      have "fst (anchor_ids_row ''anchor_assignment_id'' a) \<noteq> ?k"
        "fst (anchor_ids_row ''anchor_device_id'' a) \<noteq> ?k"
        by simp_all
      then show "\<not> anchor_matches (cell (snd j) ''anchor_id'')
          (assignment_row (Some ''anchor'') a)"
        by (simp add: anchor_matches_row cells(1) anchor_ids_row_fst)
    qed
    have 2: "anchor_cells_empty (snd j)"
      by (simp only: anchor_cells_empty_def cells nan_anchor_cells)
    from fj cells(1) 1 2 show ?thesis by (intro conjI disjI2)
  qed
qed

lemma joined_table_row:
  assumes "j \<in> set (rows (joined_table ext tags anchors dps))"
  shows "(\<exists>x\<in>set (map fst dps). fst j = field x ''data_id'' \<and>
      cell (snd j) ''anchor_id'' = field (payload ext x) ''anchor_id'') \<and>
    ((\<exists>a\<in>set anchors.
        anchor_matches (cell (snd j) ''anchor_id'') (assignment_row (Some ''anchor'') a) \<and>
        anchor_cells_from True (assignment_row (Some ''anchor'') a) (snd j))
     \<or> ((\<forall>a\<in>set anchors.
            \<not> anchor_matches (cell (snd j) ''anchor_id'') (assignment_row (Some ''anchor'') a))
         \<and> anchor_cells_empty (snd j)))"
proof -
  from assms obtain r where
    r: "r \<in> set (concat (map (join_row ''tag_assignment_id''
              (assignment_table (Some ''tag'') tags)) (map (datapoint_row ext) dps)))"
    and j: "j \<in> set (join_row ''anchor_id'' (anchor_ids_table anchors) r)"
    by (auto simp: joined_table_def)
  from r obtain x t where xt: "(x, t) \<in> set dps"
    and f: "fst r = field x ''data_id''"
    and k: "cell (snd r) ''anchor_id'' = field (payload ext x) ''anchor_id''"
    and s: "map fst (snd r) =
        [''timestamp'', ''tag_assignment_id'', ''anchor_id'', ''rssi'',
         ''tag_device_id'', ''tag_device_type'', ''tag_name'',
         ''tag_part_number'', ''tag_serial_number'', ''tag_tag_id'']"
    by (rule tagged_row)
  note jr = joined_row_anchor [OF j s]
  note fj = jr [THEN conjunct1]
  note kj = jr [THEN conjunct2, THEN conjunct1]
  note c = jr [THEN conjunct2, THEN conjunct2]
  from xt have "x \<in> set (map fst dps)" by force
  moreover have "fst j = field x ''data_id''" by (simp only: fj f)
  moreover have "cell (snd j) ''anchor_id'' = field (payload ext x) ''anchor_id''"
    by (simp only: kj k)
  ultimately have "\<exists>x\<in>set (map fst dps). fst j = field x ''data_id'' \<and>
      cell (snd j) ''anchor_id'' = field (payload ext x) ''anchor_id''"
    by (intro bexI [of _ x] conjI)
  with c show ?thesis by (rule conjI [rotated])
qed

lemma zip_map_same:
  "(a, b) \<in> set (zip xs (map f xs)) \<Longrightarrow> a \<in> set xs \<and> b = f a"
  by (induction xs) auto

lemma return_columns_mem:
  "''anchor_assignment_id'' \<in> set (return_columns f1 f2 f3)"
  "''anchor_device_id'' \<in> set (return_columns f1 f2 f3)"
  "(''anchor_name'' \<in> set (return_columns f1 f2 f3)) = f3"
  by (simp_all add: return_columns_def)

lemma reindexed_anchor_cells_from:
  "anchor_cells_from True a kvs \<Longrightarrow>
   anchor_cells_from f3 a (map (\<lambda>c. (c, cell kvs c)) (return_columns f1 f2 f3))"
  by (simp add: anchor_cells_from_def cell_reindex return_columns_mem)

lemma reindexed_anchor_cells_empty:
  "anchor_cells_empty kvs \<Longrightarrow>
   anchor_cells_empty (map (\<lambda>c. (c, cell kvs c)) (return_columns f1 f2 f3))"
  by (simp add: anchor_cells_empty_def cell_reindex return_columns_mem)

lemma snd_bind_io:
  "snd (bind_io m f) = (case fst m of Inl e \<Rightarrow> snd m | Inr x \<Rightarrow> snd m @ snd (f x))"
  by (cases m; cases "fst m") (auto simp: bind_io_def split: prod.splits)

lemma snd_no_io [simp]: "snd (no_io r) = []"
  by (simp add: no_io_def)

lemma trace_fetch_environment_id:
  "(c, r) \<in> set (snd (fetch_environment_id cl i n)) \<Longrightarrow> request_name c = ''findEnvironments''"
  by (auto simp: fetch_environment_id_def Let_def find_environments_call_def split: if_splits)

lemma trace_fetch_device_assignments:
  "(c, r) \<in> set (snd (fetch_device_assignments ext cl env s e dts pfx cs)) \<Longrightarrow>
   request_name c = ''searchAssignments''"
  by (auto simp: fetch_device_assignments_def search_assignments_eq snd_bind_io
        assignments_call_def search_objects_call_def split: sum.splits)

lemma trace_search_ble_datapoints:
  "(c, r) \<in> set (snd (search_ble_datapoints cl (datapoint_query_list ext s e ids)
      datapoint_return_data cs)) \<Longrightarrow> c = datapoints_call ext s e ids cs"
  by (simp add: search_ble_datapoints_eq)

lemma trace_fetch_ble_datapoints_locals:
  assumes "(c, r) \<in> set (snd (fetch_ble_datapoints_locals ext cl s e environment_id
      environment_name tag_types anchor_types cs))"
    and "request_name c = ''searchDatapoints''"
  shows "\<exists>ids. c = datapoints_call ext s e ids cs"
proof -
  let ?env = "fetch_environment_id cl environment_id environment_name"
  have ne: "(c, r) \<notin> set (snd ?env)"
    using assms(2) trace_fetch_environment_id [of c r cl environment_id environment_name]
    by auto
  have nf: "(c, r) \<notin> set (snd (fetch_device_assignments ext cl env s e dts pfx cs))"
    for env dts pfx
    using assms(2) trace_fetch_device_assignments [of c r ext cl env s e dts pfx cs]
    by auto
  show ?thesis
  proof (cases "fst ?env")
    case (Inl err)
    with assms(1) ne show ?thesis
      by (simp add: fetch_ble_datapoints_locals_def snd_bind_io)
  next
    case env: (Inr env)
    show ?thesis
    proof (cases "env = PNone")
      case True
      with assms(1) ne env show ?thesis
        by (simp add: fetch_ble_datapoints_locals_def snd_bind_io)
    next
      case False
      let ?T = "fetch_device_assignments ext cl env s e tag_types (Some ''tag'') cs"
      let ?A = "fetch_device_assignments ext cl env s e anchor_types (Some ''anchor'') cs"
      show ?thesis
      proof (cases "fst ?T")
        case (Inl err)
        with assms(1) ne env False nf show ?thesis
          by (simp add: fetch_ble_datapoints_locals_def snd_bind_io)
      next
        case T: (Inr T)
        show ?thesis
        proof (cases "fst ?A")
          case (Inl err)
          with assms(1) ne env False nf T show ?thesis
            by (simp add: fetch_ble_datapoints_locals_def snd_bind_io)
        next
          case A: (Inr A)
          let ?S = "search_ble_datapoints cl
                (datapoint_query_list ext s e (unique (map fst (rows T))))
                datapoint_return_data cs"
          from assms(1) ne env False nf T A have "(c, r) \<in> set (snd ?S)"
            by (simp add: fetch_ble_datapoints_locals_def snd_bind_io split: sum.splits)
          then have "c = datapoints_call ext s e (unique (map fst (rows T))) cs"
            by (rule trace_search_ble_datapoints)
          then show ?thesis by (rule exI)
        qed
      qed
    qed
  qed
qed

lemma snd_fetch_ble_datapoints:
  "snd (fetch_ble_datapoints ext cl s e environment_id environment_name f1 f2 f3
      tag_types anchor_types cs) =
   snd (fetch_ble_datapoints_locals ext cl s e environment_id environment_name
      tag_types anchor_types cs)"
  by (simp add: fetch_ble_datapoints_def snd_bind_io split_def split: sum.splits)

lemma last_datapoint_query_list:
  "last (datapoint_query_list ext s (Some e) ids) =
     PDict [(''field'', PStr ''timestamp''), (''operator'', PStr ''LTE''),
            (''value'', to_honeycomb_datetime ext e)]"
  by (simp add: datapoint_query_list_def)

lemma query_admits_end:
  assumes "to_honeycomb_datetime ext = PDatetime" "\<forall>s. start_time = Some s \<longrightarrow> s \<le> e"
  shows "query_admits_timestamp (datapoint_query_list ext start_time (Some e) ids) e"
  using assms
  by (cases start_time)
     (simp_all add: query_admits_timestamp_def datapoint_query_list_def field_def dict_get_def)

lemma row_count_facts:
  assumes "fetch_ble_datapoints ext cl start_time end_time environment_id environment_name
             return_tag_name return_tag_tag_id return_anchor_name
             tag_device_types anchor_device_types chunk_size' = (Inr out, tr)"
    and "fetch_ble_datapoints_locals ext cl start_time end_time environment_id environment_name
             tag_device_types anchor_device_types chunk_size' =
           (Inr (tag_assignments_df, anchor_assignments_df, result, datapoints_df), tr')"
  shows "snd (last tr) = Inr result"
    and "length result \<le> length (rows out)"
    and "distinct (map fst (rows tag_assignments_df)) \<and>
         distinct (map fst (rows anchor_assignments_df) @
                   map (\<lambda>r. cell (snd r) ''anchor_device_id'') (rows anchor_assignments_df))
         \<longrightarrow> map fst (rows out) = map (\<lambda>datum. field datum ''data_id'') result"
proof -
  from assms have out: "out = reindex
      (return_columns return_tag_name return_tag_tag_id return_anchor_name) datapoints_df"
    and tr: "tr = tr'"
    by (auto simp: fetch_ble_datapoints_Inr)
  from assms(2) obtain tags anchors ts t0 c where
    T: "tag_assignments_df = assignment_table (Some ''tag'') tags"
    and A: "anchor_assignments_df = assignment_table (Some ''anchor'') anchors"
    and len: "length ts = length result"
    and J: "datapoints_df = joined_table ext tags anchors (zip result ts)"
    and t: "tr' = t0 @ [(c, Inr result)]"
    by (rule fetch_ble_datapoints_locals_Inr) auto
  from t tr show "snd (last tr) = Inr result" by simp
  let ?d = "map (datapoint_row ext) (zip result ts)"
  let ?j1 = "concat (map (join_row ''tag_assignment_id'' (assignment_table (Some ''tag'') tags)) ?d)"
  let ?j2 = "concat (map (join_row ''anchor_id'' (anchor_ids_table anchors)) ?j1)"
  have rows: "rows datapoints_df = ?j2"
    by (simp add: J joined_table_def)
  have "length result = length ?d" using len by simp
  also have "\<dots> \<le> length ?j1" by (rule length_concat_join_row)
  also have "\<dots> \<le> length ?j2" by (rule length_concat_join_row)
  finally show "length result \<le> length (rows out)"
    by (simp add: out rows)
  show "distinct (map fst (rows tag_assignments_df)) \<and>
         distinct (map fst (rows anchor_assignments_df) @
                   map (\<lambda>r. cell (snd r) ''anchor_device_id'') (rows anchor_assignments_df))
         \<longrightarrow> map fst (rows out) = map (\<lambda>datum. field datum ''data_id'') result"
  proof
    assume d: "distinct (map fst (rows tag_assignments_df)) \<and>
         distinct (map fst (rows anchor_assignments_df) @
                   map (\<lambda>r. cell (snd r) ''anchor_device_id'') (rows anchor_assignments_df))"
    then have d1: "distinct (map fst (rows (assignment_table (Some ''tag'') tags)))"
      and d2: "distinct (map fst (rows (anchor_ids_table anchors)))"
      by (simp_all only: T A rows_anchor_ids_keys)
    have "map fst (rows out) = map fst ?j2"
      by (simp only: out rows_reindex rows)
    also have "\<dots> = map fst ?j1"
      by (rule concat_join_row_distinct [OF d2])
    also have "\<dots> = map fst ?d"
      by (rule concat_join_row_distinct [OF d1])
    also have "\<dots> = map (\<lambda>datum. field datum ''data_id'') result"
      using len [symmetric] by (rule map_fst_datapoint_rows)
    finally show "map fst (rows out) = map (\<lambda>datum. field datum ''data_id'') result" .
  qed
qed

lemma map_fst_join_row:
  "map fst (join_row c R r) =
     replicate (max 1 (length (filter (\<lambda>m. fst m = cell (snd r) c) (rows R)))) (fst r)"
proof (cases r)
  case (Pair i kvs)
  let ?ms = "filter (\<lambda>(ri, rkvs). ri = cell kvs c) (rows R)"
  have eq: "filter (\<lambda>m. fst m = cell kvs c) (rows R) = ?ms"
    by (simp add: split_def)
  show ?thesis
  proof (cases ?ms)
    case Nil
    with Pair eq show ?thesis
      by (simp add: join_row_def)
  next
    case (Cons m ms)
    have "map fst (map (\<lambda>(ri, rkvs). (i, kvs @ rkvs)) ?ms) = replicate (length ?ms) i"
      by (simp add: split_def o_def map_replicate_const)
    moreover have "max 1 (length ?ms) = length ?ms"
      using Cons by simp
    ultimately show ?thesis
      using Pair eq Cons by (simp add: join_row_def)
  qed
qed

lemma map_fst_concat_const:
  "(\<And>r. r \<in> set rs \<Longrightarrow> map fst (f r) = replicate n v) \<Longrightarrow>
   map fst (concat (map f rs)) = replicate (length rs * n) v"
  by (induction rs) (simp_all add: replicate_add)

lemma map_fst_concat_concat:
  "map fst (concat (map g (concat (map f ds)))) =
     concat (map (\<lambda>d. map fst (concat (map g (f d)))) ds)"
  by (induction ds) simp_all

lemma anchor_lookup_count:
  "length (filter (\<lambda>m. fst m = k) (rows (anchor_ids_table anchors))) =
     length (filter (\<lambda>r. fst r = k) (rows (assignment_table (Some ''anchor'') anchors))) +
     length (filter (\<lambda>r. cell (snd r) ''anchor_device_id'' = k)
               (rows (assignment_table (Some ''anchor'') anchors)))"
  by (simp add: anchor_ids_table_def assignment_table_def filter_map o_def
        anchor_ids_row_fst anchor_row_facts)

lemma datapoint_row_tag_key:
  "cell (snd (datapoint_row ext (x, t))) ''tag_assignment_id'' =
     field (field x ''source'') ''assignment_id''"
  by (simp add: datapoint_row_def cell_def)

lemma joined_rows_of_datapoint:
  "map fst (concat (map (join_row ''anchor_id'' (anchor_ids_table anchors))
      (join_row ''tag_assignment_id'' (assignment_table (Some ''tag'') tags)
         (datapoint_row ext (x, t))))) =
   replicate (rows_of_datapoint ext (assignment_table (Some ''tag'') tags)
                (assignment_table (Some ''anchor'') anchors) x)
     (field x ''data_id'')"
proof -
  let ?T = "assignment_table (Some ''tag'') tags"
  let ?A = "assignment_table (Some ''anchor'') anchors"
  let ?d = "datapoint_row ext (x, t)"
  let ?rs = "join_row ''tag_assignment_id'' ?T ?d"
  have len: "length ?rs = max 1 (tag_match_count ?T x)"
    using arg_cong [OF map_fst_join_row [of "''tag_assignment_id''" ?T ?d], of length]
    by (simp add: tag_match_count_def datapoint_row_tag_key)
  have each: "map fst (join_row ''anchor_id'' (anchor_ids_table anchors) r) =
      replicate (max 1 (anchor_match_count ext ?A x)) (field x ''data_id'')"
    if "r \<in> set ?rs" for r
  proof -
    from that have "r \<in> set (concat (map (join_row ''tag_assignment_id'' ?T)
        (map (datapoint_row ext) [(x, t)])))"
      by simp
    then obtain x' t' where "(x', t') \<in> set [(x, t)]" "fst r = field x' ''data_id''"
      "cell (snd r) ''anchor_id'' = field (payload ext x') ''anchor_id''"
      by (rule tagged_row)
    then have "fst r = field x ''data_id''"
      "cell (snd r) ''anchor_id'' = field (payload ext x) ''anchor_id''"
      by simp_all
    then show ?thesis
      by (simp only: map_fst_join_row anchor_lookup_count anchor_match_count_def)
  qed
  have "map fst (concat (map (join_row ''anchor_id'' (anchor_ids_table anchors)) ?rs)) =
      replicate (length ?rs * max 1 (anchor_match_count ext ?A x)) (field x ''data_id'')"
    using each by (rule map_fst_concat_const)
  then show ?thesis
    by (simp only: len rows_of_datapoint_def)
qed

lemma joined_rows_of_pair:
  "map fst (concat (map (join_row ''anchor_id'' (anchor_ids_table anchors))
      (join_row ''tag_assignment_id'' (assignment_table (Some ''tag'') tags)
         (datapoint_row ext p)))) =
   replicate (rows_of_datapoint ext (assignment_table (Some ''tag'') tags)
                (assignment_table (Some ''anchor'') anchors) (fst p))
     (field (fst p) ''data_id'')"
  by (cases p) (simp only: joined_rows_of_datapoint fst_conv)

lemma map_zip_fst_only:
  "length xs = length ts \<Longrightarrow> map (\<lambda>p. g (fst p)) (zip xs ts) = map g xs"
  by (induction xs ts rule: list_induct2) simp_all

lemma joined_table_index:
  assumes "length ts = length xs"
  shows "map fst (rows (joined_table ext tags anchors (zip xs ts))) =
     concat (map (\<lambda>datum.
        replicate (rows_of_datapoint ext (assignment_table (Some ''tag'') tags)
                     (assignment_table (Some ''anchor'') anchors) datum)
          (field datum ''data_id'')) xs)"
proof -
  let ?g = "\<lambda>datum.
        replicate (rows_of_datapoint ext (assignment_table (Some ''tag'') tags)
                     (assignment_table (Some ''anchor'') anchors) datum)
          (field datum ''data_id'')"
  have "map fst (rows (joined_table ext tags anchors (zip xs ts))) =
      concat (map (\<lambda>d. map fst
         (concat (map (join_row ''anchor_id'' (anchor_ids_table anchors))
            (join_row ''tag_assignment_id'' (assignment_table (Some ''tag'') tags) d))))
         (map (datapoint_row ext) (zip xs ts)))"
    by (simp only: joined_table_def dataframe.simps map_fst_concat_concat)
  also have "\<dots> = concat (map (\<lambda>p. ?g (fst p)) (zip xs ts))"
    by (simp only: map_map o_def joined_rows_of_pair)
  also have "\<dots> = concat (map ?g xs)"
    using map_zip_fst_only [OF assms [symmetric], where g = ?g] by simp
  finally show ?thesis .
qed

lemma rows_of_datapoint_pos: "1 \<le> rows_of_datapoint ext T A datum"
  by (simp add: rows_of_datapoint_def Suc_le_eq max_def)

lemma replicated_member:
  "x \<in> set xs \<Longrightarrow> 1 \<le> n x \<Longrightarrow> v x \<in> set (concat (map (\<lambda>x. replicate (n x) (v x)) xs))"
  by (induction xs) auto

lemma row_index_facts:
  assumes "fetch_ble_datapoints ext cl start_time end_time environment_id environment_name
             return_tag_name return_tag_tag_id return_anchor_name
             tag_device_types anchor_device_types chunk_size' = (Inr out, tr)"
    and "fetch_ble_datapoints_locals ext cl start_time end_time environment_id environment_name
             tag_device_types anchor_device_types chunk_size' =
           (Inr (tag_assignments_df, anchor_assignments_df, result, datapoints_df), tr')"
  shows "map fst (rows out) =
       concat (map (\<lambda>datum.
         replicate (rows_of_datapoint ext tag_assignments_df anchor_assignments_df datum)
           (field datum ''data_id'')) result)"
proof -
  from assms have out: "out = reindex
      (return_columns return_tag_name return_tag_tag_id return_anchor_name) datapoints_df"
    by (auto simp: fetch_ble_datapoints_Inr)
  from assms(2) obtain tags anchors ts where
    T: "tag_assignments_df = assignment_table (Some ''tag'') tags"
    and A: "anchor_assignments_df = assignment_table (Some ''anchor'') anchors"
    and len: "length ts = length result"
    and J: "datapoints_df = joined_table ext tags anchors (zip result ts)"
    by (rule fetch_ble_datapoints_locals_Inr)
  show ?thesis
    by (simp only: out rows_reindex J T A joined_table_index [OF len])
qed

section \<open>Properties of the environment resolver\<close>

text \<open>
  Claim C2. When an environment ID is given and no environment name,
  \<^verbatim>\<open>fetch_environment_id\<close> returns that ID unchanged and makes no call to the client.
\<close>

theorem fetch_environment_id_by_id:
  "environment_id \<noteq> PNone \<Longrightarrow>
   fetch_environment_id cl environment_id PNone = (Inr environment_id, [])"
  by (simp add: fetch_environment_id_def)

theorem fetch_environment_id_by_id_witness:
  "PStr ''env-1'' \<noteq> PNone \<and>
   fetch_environment_id example_client (PStr ''env-1'') PNone = (Inr (PStr ''env-1''), [])"
  using fetch_environment_id_by_id [of "PStr ''env-1''" example_client] by simp

text \<open>
  Claim C3. When an environment name is given and no environment ID, and the
  \<^verbatim>\<open>findEnvironments\<close> query answers with a list of environments:
  if the list has exactly one environment, \<^verbatim>\<open>fetch_environment_id\<close> returns the
  \<^verbatim>\<open>environment_id\<close> of that environment; if the list is empty or has more than one
  environment, it raises a \<^verbatim>\<open>ValueError\<close>. In both cases the query is the one call made.
\<close>

theorem fetch_environment_id_by_name:
  assumes "environment_name \<noteq> PNone"
    and "bulk_query cl (find_environments_call environment_name) = Inr result"
  shows "(\<forall>environment. result = [environment] \<longrightarrow>
            fetch_environment_id cl PNone environment_name =
              (py_get environment ''environment_id'',
               [(find_environments_call environment_name, Inr result)]))
       \<and> (length result = 0 \<or> length result > 1 \<longrightarrow>
            (\<exists>message. fetch_environment_id cl PNone environment_name =
              (Inl (ValueError message),
               [(find_environments_call environment_name, Inr result)])))"
  using assms by (auto simp: fetch_environment_id_def Let_def)

theorem fetch_environment_id_by_name_witness:
  "fetch_environment_id example_client PNone (PStr ''school'') =
     (Inr (PStr ''env-1''),
      [(find_environments_call (PStr ''school''),
        Inr [PDict [(''environment_id'', PStr ''env-1'')]])])
   \<and> (\<exists>message. fst (fetch_environment_id example_client PNone (PStr ''nowhere'')) =
         Inl (ValueError message))
   \<and> (\<exists>message. fst (fetch_environment_id example_client PNone (PStr ''campus'')) =
         Inl (ValueError message))"
proof -
  have n: "PStr ''school'' \<noteq> PNone" "PStr ''nowhere'' \<noteq> PNone" "PStr ''campus'' \<noteq> PNone"
    by simp_all
  have one: "bulk_query example_client (find_environments_call (PStr ''school'')) =
      Inr [PDict [(''environment_id'', PStr ''env-1'')]]"
    by (simp add: example_client_def find_environments_call_def)
  have zero: "bulk_query example_client (find_environments_call (PStr ''nowhere'')) = Inr []"
    by (simp add: example_client_def find_environments_call_def)
  have two: "bulk_query example_client (find_environments_call (PStr ''campus'')) =
      Inr [PDict [(''environment_id'', PStr ''env-2'')],
           PDict [(''environment_id'', PStr ''env-3'')]]"
    by (simp add: example_client_def find_environments_call_def)
  show ?thesis
    using fetch_environment_id_by_name [OF n(1) one]
      fetch_environment_id_by_name [OF n(2) zero]
      fetch_environment_id_by_name [OF n(3) two]
    by (auto simp: dict_get_def)
qed

text \<open>
  Claim C4. When both an environment ID and an environment name are given,
  \<^verbatim>\<open>fetch_environment_id\<close> raises a \<^verbatim>\<open>ValueError\<close> and makes no call to the client.
\<close>

theorem fetch_environment_id_conflict:
  "environment_id \<noteq> PNone \<Longrightarrow> environment_name \<noteq> PNone \<Longrightarrow>
   fetch_environment_id cl environment_id environment_name =
     (Inl (ValueError
        ''If environment ID is specified, environment name cannot be specified''), [])"
  by (simp add: fetch_environment_id_def)

theorem fetch_environment_id_conflict_witness:
  "PStr ''env-1'' \<noteq> PNone \<and> PStr ''school'' \<noteq> PNone \<and>
   fetch_environment_id example_client (PStr ''env-1'') (PStr ''school'') =
     (Inl (ValueError
        ''If environment ID is specified, environment name cannot be specified''), [])"
  using fetch_environment_id_conflict [of "PStr ''env-1''" "PStr ''school''" example_client]
  by simp

text \<open>
  Claim C5. When neither an environment ID nor an environment name is given,
  \<^verbatim>\<open>fetch_ble_datapoints\<close> raises the \<^verbatim>\<open>ValueError\<close> "Must specify environment" and
  makes no call to the client: \<^verbatim>\<open>fetch_environment_id\<close> hands back \<^verbatim>\<open>None\<close>, and the
  check of line 37 turns it into the error before any table is fetched.
\<close>

theorem missing_environment_raises:
  "fetch_environment_id cl PNone PNone = (Inr PNone, []) \<and>
   fetch_ble_datapoints ext cl start_time end_time PNone PNone
       return_tag_name return_tag_tag_id return_anchor_name
       tag_device_types anchor_device_types chunk_size' =
     (Inl (ValueError ''Must specify environment''), [])"
  by (simp add: fetch_environment_id_def fetch_ble_datapoints_def
        fetch_ble_datapoints_locals_def bind_io_def)

section \<open>Properties of the device assignment fetcher\<close>

text \<open>
  Claim C6. Let the time-window filter be the overlap filter of the spec. Then the
  rows of the table that \<^verbatim>\<open>fetch_device_assignments\<close> returns are, in order, the rows of
  exactly those assignments answered by the service whose time window overlaps the
  requested window and, when a list of device types is requested, whose device type is in
  that list: every other assignment is left out, and every such assignment is kept.
\<close>

theorem fetch_device_assignments_filters:
  assumes "filter_assignments ext = overlap_filter"
    and "bulk_query cl (assignments_call environment_id chunk_size') = Inr result"
    and "fetch_device_assignments ext cl environment_id start_time end_time device_types
           column_name_prefix chunk_size' = (Inr df, tr)"
  shows "rows df =
     map (assignment_row column_name_prefix)
       (filter (\<lambda>a. window_overlaps start_time end_time a \<and> has_device_type device_types a)
          result)"
proof -
  from assms(3) obtain result' filtered where
    "bulk_query cl (assignments_call environment_id chunk_size') = Inr result'"
    "filter_assignments ext result' start_time end_time = Inr filtered"
    "df = assignment_table column_name_prefix (filter (has_device_type device_types) filtered)"
    by (rule fetch_device_assignments_Inr)
  with assms(1,2) show ?thesis
    by (auto simp: overlap_filter_def assignment_table_def)
qed

theorem fetch_device_assignments_filters_witness:
  "filter_assignments example_externals = overlap_filter \<and>
   bulk_query example_client (assignments_call (PStr ''env-1'') 100) = Inr example_assignments \<and>
   map fst (rows (projr (fst (fetch_device_assignments example_externals example_client
      (PStr ''env-1'') (Some 20) (Some 40) default_anchor_device_types (Some ''anchor'') 100))))
     = [PStr ''a1'']"
proof -
  let ?m = "fetch_device_assignments example_externals example_client
      (PStr ''env-1'') (Some 20) (Some 40) default_anchor_device_types (Some ''anchor'') 100"
  have f: "filter_assignments example_externals = overlap_filter"
    by (simp add: example_externals_def)
  have q: "bulk_query example_client (assignments_call (PStr ''env-1'') 100) =
      Inr example_assignments"
    by (simp add: example_client_def assignments_call_def search_objects_call_def)
  have "case fst ?m of Inr x \<Rightarrow> True | Inl e \<Rightarrow> False"
    by code_simp
  then have m: "?m = (Inr (projr (fst ?m)), snd ?m)"
    by (rule io_Inr_expand)
  have "map fst (map (assignment_row (Some ''anchor''))
       (filter (\<lambda>a. window_overlaps (Some 20) (Some 40) a \<and>
                     has_device_type default_anchor_device_types a) example_assignments))
     = [PStr ''a1'']"
    by code_simp
  with fetch_device_assignments_filters [OF f q m] f q show ?thesis
    by simp
qed

text \<open>
  Claim C8. The table that \<^verbatim>\<open>fetch_device_assignments\<close> returns for a prefix \<open>p\<close> has
  the index name \<open>p_assignment_id\<close> and exactly the columns \<open>p_device_id\<close>,
  \<open>p_device_type\<close>, \<open>p_name\<close>, \<open>p_part_number\<close>, \<open>p_serial_number\<close>, \<open>p_tag_id\<close>, in
  that order; without a prefix the same names stand unprefixed.
\<close>

theorem fetch_device_assignments_labels:
  assumes "fetch_device_assignments ext cl environment_id start_time end_time device_types
           column_name_prefix chunk_size' = (Inr df, tr)"
  shows "(\<forall>p. column_name_prefix = Some p \<longrightarrow>
            index_name df = Some (p @ ''_assignment_id'') \<and>
            columns df = [p @ ''_device_id'', p @ ''_device_type'', p @ ''_name'',
                          p @ ''_part_number'', p @ ''_serial_number'', p @ ''_tag_id''])
       \<and> (column_name_prefix = None \<longrightarrow>
            index_name df = Some ''assignment_id'' \<and>
            columns df = [''device_id'', ''device_type'', ''name'',
                          ''part_number'', ''serial_number'', ''tag_id''])"
proof -
  from assms obtain xs where "df = assignment_table column_name_prefix xs"
    by (rule fetch_device_assignments_Inr)
  then show ?thesis
    by (simp add: assignment_table_def prefixed_def assignment_return_columns_def)
qed

theorem fetch_device_assignments_labels_witness:
  "index_name (projr (fst (fetch_device_assignments example_externals example_client
      (PStr ''env-1'') None None default_tag_device_types (Some ''tag'') 100)))
     = Some ''tag_assignment_id''
   \<and> columns (projr (fst (fetch_device_assignments example_externals example_client
      (PStr ''env-1'') None None default_tag_device_types (Some ''tag'') 100)))
     = [''tag_device_id'', ''tag_device_type'', ''tag_name'',
        ''tag_part_number'', ''tag_serial_number'', ''tag_tag_id'']
   \<and> index_name (projr (fst (fetch_device_assignments example_externals example_client
      (PStr ''env-1'') None None default_tag_device_types None 100)))
     = Some ''assignment_id''
   \<and> columns (projr (fst (fetch_device_assignments example_externals example_client
      (PStr ''env-1'') None None default_tag_device_types None 100)))
     = [''device_id'', ''device_type'', ''name'',
        ''part_number'', ''serial_number'', ''tag_id'']"
proof -
  let ?m = "fetch_device_assignments example_externals example_client
      (PStr ''env-1'') None None default_tag_device_types (Some ''tag'') 100"
  let ?n = "fetch_device_assignments example_externals example_client
      (PStr ''env-1'') None None default_tag_device_types None 100"
  have "case fst ?m of Inr x \<Rightarrow> True | Inl e \<Rightarrow> False"
    by code_simp
  then have m: "?m = (Inr (projr (fst ?m)), snd ?m)"
    by (rule io_Inr_expand)
  have "case fst ?n of Inr x \<Rightarrow> True | Inl e \<Rightarrow> False"
    by code_simp
  then have n: "?n = (Inr (projr (fst ?n)), snd ?n)"
    by (rule io_Inr_expand)
  show ?thesis
    using fetch_device_assignments_labels [OF m] fetch_device_assignments_labels [OF n]
    by simp
qed

text \<open>
  Claim C9. When \<^verbatim>\<open>device_types\<close> is \<^verbatim>\<open>None\<close>, the rows of the table that
  \<^verbatim>\<open>fetch_device_assignments\<close> returns are the rows of all the assignments that the
  time-window filter lets through, whatever their device type, a missing one included.
\<close>

theorem fetch_device_assignments_no_type_filter:
  assumes "bulk_query cl (assignments_call environment_id chunk_size') = Inr result"
    and "filter_assignments ext result start_time end_time = Inr filtered_result"
    and "fetch_device_assignments ext cl environment_id start_time end_time None
           column_name_prefix chunk_size' = (Inr df, tr)"
  shows "rows df = map (assignment_row column_name_prefix) filtered_result"
proof -
  from assms(3) obtain result' filtered where
    "bulk_query cl (assignments_call environment_id chunk_size') = Inr result'"
    "filter_assignments ext result' start_time end_time = Inr filtered"
    "df = assignment_table column_name_prefix (filter (has_device_type None) filtered)"
    by (rule fetch_device_assignments_Inr)
  with assms(1,2) show ?thesis
    by (simp add: assignment_table_def has_device_type_def)
qed

theorem fetch_device_assignments_no_type_filter_witness:
  "bulk_query example_client (assignments_call (PStr ''env-1'') 100) = Inr example_assignments \<and>
   filter_assignments example_externals example_assignments None (Some 10) =
     Inr [example_assignments ! 0, example_assignments ! 1, example_assignments ! 3] \<and>
   map (\<lambda>r. (fst r, cell (snd r) ''device_type''))
     (rows (projr (fst (fetch_device_assignments example_externals example_client
        (PStr ''env-1'') None (Some 10) None None 100))))
     = [(PStr ''t1'', PStr ''BLETAG''), (PStr ''a1'', PStr ''PI3''), (PStr ''a3'', PNone)]"
proof -
  let ?m = "fetch_device_assignments example_externals example_client
      (PStr ''env-1'') None (Some 10) None None 100"
  have q: "bulk_query example_client (assignments_call (PStr ''env-1'') 100) =
      Inr example_assignments"
    by (simp add: example_client_def assignments_call_def search_objects_call_def)
  have f: "filter_assignments example_externals example_assignments None (Some 10) =
     Inr [example_assignments ! 0, example_assignments ! 1, example_assignments ! 3]"
    by code_simp
  have "case fst ?m of Inr x \<Rightarrow> True | Inl e \<Rightarrow> False"
    by code_simp
  then have m: "?m = (Inr (projr (fst ?m)), snd ?m)"
    by (rule io_Inr_expand)
  have "map (\<lambda>r. (fst r, cell (snd r) ''device_type''))
      (map (assignment_row None)
         [example_assignments ! 0, example_assignments ! 1, example_assignments ! 3])
     = [(PStr ''t1'', PStr ''BLETAG''), (PStr ''a1'', PStr ''PI3''), (PStr ''a3'', PNone)]"
    by code_simp
  with fetch_device_assignments_no_type_filter [OF q f m] q f show ?thesis
    by simp
qed

section \<open>Properties of the datapoint fetcher\<close>

text \<open>
  Claim C1, as amended. Let \<^verbatim>\<open>fetch_ble_datapoints\<close> return a table, \<open>result\<close> being
  the list that \<^verbatim>\<open>search_ble_datapoints\<close> returned (the answer to the last call made to the
  client). The index of the table is, datapoint after datapoint in the order of \<open>result\<close>,
  the \<^verbatim>\<open>data_id\<close> of the datapoint repeated \<open>max 1 t * max 1 a\<close> times: \<open>t\<close> is the
  number of rows of the tag assignment table whose assignment ID is the datapoint's
  \<^verbatim>\<open>tag_assignment_id\<close>, and \<open>a\<close> the number of rows of the anchor assignment table whose
  assignment ID is its parsed \<^verbatim>\<open>anchor_id\<close> plus the number of those whose device ID is it.
  So every datapoint of \<open>result\<close> has at least one row under its \<^verbatim>\<open>data_id\<close>: parsing and
  the two joins drop no datapoint, and the table has at least as many rows as \<open>result\<close> has
  datapoints. When the tag assignment table has no two rows with the same assignment ID,
  and the anchor assignment IDs and anchor device IDs of the anchor assignment table are
  pairwise distinct, the table has exactly one row per datapoint.
\<close>

theorem fetch_ble_datapoints_row_count:
  assumes "fetch_ble_datapoints ext cl start_time end_time environment_id environment_name
             return_tag_name return_tag_tag_id return_anchor_name
             tag_device_types anchor_device_types chunk_size' = (Inr out, tr)"
    and "fetch_ble_datapoints_locals ext cl start_time end_time environment_id environment_name
             tag_device_types anchor_device_types chunk_size' =
           (Inr (tag_assignments_df, anchor_assignments_df, result, datapoints_df), tr')"
  shows "snd (last tr) = Inr result \<and>
     map fst (rows out) =
       concat (map (\<lambda>datum.
         replicate (rows_of_datapoint ext tag_assignments_df anchor_assignments_df datum)
           (field datum ''data_id'')) result) \<and>
     (\<forall>datum\<in>set result.
        1 \<le> rows_of_datapoint ext tag_assignments_df anchor_assignments_df datum \<and>
        field datum ''data_id'' \<in> set (map fst (rows out))) \<and>
     length result \<le> length (rows out) \<and>
     (distinct (map fst (rows tag_assignments_df)) \<and>
      distinct (map fst (rows anchor_assignments_df) @
                map (\<lambda>r. cell (snd r) ''anchor_device_id'') (rows anchor_assignments_df))
      \<longrightarrow> map fst (rows out) = map (\<lambda>datum. field datum ''data_id'') result)"
proof -
  note idx = row_index_facts [OF assms]
  have pres: "\<forall>datum\<in>set result.
        1 \<le> rows_of_datapoint ext tag_assignments_df anchor_assignments_df datum \<and>
        field datum ''data_id'' \<in> set (map fst (rows out))"
  proof
    fix datum
    assume d: "datum \<in> set result"
    have p: "1 \<le> rows_of_datapoint ext tag_assignments_df anchor_assignments_df datum"
      by (rule rows_of_datapoint_pos)
    from replicated_member [where n = "rows_of_datapoint ext tag_assignments_df
          anchor_assignments_df" and v = "\<lambda>datum. field datum ''data_id''", OF d p]
    have "field datum ''data_id'' \<in> set (map fst (rows out))"
      by (simp only: idx)
    with p show "1 \<le> rows_of_datapoint ext tag_assignments_df anchor_assignments_df datum \<and>
        field datum ''data_id'' \<in> set (map fst (rows out))"
      by (rule conjI)
  qed
  from row_count_facts [OF assms] idx pres show ?thesis
    by (intro conjI)
qed

theorem fetch_ble_datapoints_row_count_witness:
  "snd (last (snd (fetch_ble_datapoints example_externals example_client (Some 20) (Some 40)
      (PStr ''env-1'') PNone False False False
      default_tag_device_types default_anchor_device_types 100))) = Inr example_datapoints
   \<and> map fst (rows (projr (fst (fetch_ble_datapoints example_externals example_client
      (Some 20) (Some 40) (PStr ''env-1'') PNone False False False
      default_tag_device_types default_anchor_device_types 100))))
     = [PStr ''x1'', PStr ''x2'', PStr ''x3'']
   \<and> map (rows_of_datapoint example_externals (fst (projr (fst example_locals)))
            example_anchor_assignments_df) example_datapoints = [2, 1, 1]
   \<and> map fst (rows example_table) = [PStr ''x1'', PStr ''x1'', PStr ''x2'', PStr ''x3'']"
proof -
  let ?m = "fetch_ble_datapoints example_externals example_client (Some 20) (Some 40)
      (PStr ''env-1'') PNone False False False
      default_tag_device_types default_anchor_device_types 100"
  let ?l = "fetch_ble_datapoints_locals example_externals example_client (Some 20) (Some 40)
      (PStr ''env-1'') PNone default_tag_device_types default_anchor_device_types 100"
  have "case fst ?m of Inr x \<Rightarrow> True | Inl e \<Rightarrow> False"
    by code_simp
  then have m: "?m = (Inr (projr (fst ?m)), snd ?m)"
    by (rule io_Inr_expand)
  have "case fst ?l of Inr x \<Rightarrow> True | Inl e \<Rightarrow> False"
    by code_simp
  then have l: "?l = (Inr (fst (projr (fst ?l)), fst (snd (projr (fst ?l))),
      fst (snd (snd (projr (fst ?l)))), snd (snd (snd (projr (fst ?l))))), snd ?l)"
    by (rule locals_Inr_expand)
  have d: "distinct (map fst (rows (fst (projr (fst ?l))))) \<and>
         distinct (map fst (rows (fst (snd (projr (fst ?l))))) @
                   map (\<lambda>r. cell (snd r) ''anchor_device_id'') (rows (fst (snd (projr (fst ?l))))))"
    by code_simp
  have r: "fst (snd (snd (projr (fst ?l)))) = example_datapoints"
    by code_simp
  have i: "map (\<lambda>datum. field datum ''data_id'') example_datapoints =
      [PStr ''x1'', PStr ''x2'', PStr ''x3'']"
    by code_simp
  note w = fetch_ble_datapoints_row_count [OF m l [unfolded r]]
  have 1: "snd (last (snd ?m)) = Inr example_datapoints"
    using w [THEN conjunct1] .
  have 2: "map fst (rows (projr (fst ?m))) = [PStr ''x1'', PStr ''x2'', PStr ''x3'']"
    using w [THEN conjunct2, THEN conjunct2, THEN conjunct2, THEN conjunct2, THEN mp, OF d]
    by (simp only: i)
  have "case fst example_fetch of Inr x \<Rightarrow> True | Inl e \<Rightarrow> False"
    by code_simp
  then have "example_fetch = (Inr (projr (fst example_fetch)), snd example_fetch)"
    by (rule io_Inr_expand)
  then have m': "fetch_ble_datapoints example_externals example_client None None
       (PStr ''env-1'') PNone False False True
       default_tag_device_types default_anchor_device_types 100 =
     (Inr example_table, snd example_fetch)"
    by (simp only: example_table_def) (simp only: example_fetch_def)
  have "case fst example_locals of Inr x \<Rightarrow> True | Inl e \<Rightarrow> False"
    by code_simp
  then have "example_locals =
     (Inr (fst (projr (fst example_locals)), fst (snd (projr (fst example_locals))),
           fst (snd (snd (projr (fst example_locals)))),
           snd (snd (snd (projr (fst example_locals))))), snd example_locals)"
    by (rule locals_Inr_expand)
  moreover have "fst (snd (snd (projr (fst example_locals)))) = example_datapoints"
    by code_simp
  ultimately have l': "fetch_ble_datapoints_locals example_externals example_client None None
       (PStr ''env-1'') PNone default_tag_device_types default_anchor_device_types 100 =
     (Inr (fst (projr (fst example_locals)), example_anchor_assignments_df,
           example_datapoints, example_datapoints_df), snd example_locals)"
    by (simp only: example_anchor_assignments_df_def example_datapoints_df_def)
       (simp only: example_locals_def)
  have 3: "map (rows_of_datapoint example_externals (fst (projr (fst example_locals)))
            example_anchor_assignments_df) example_datapoints = [2, 1, 1]"
    by code_simp
  have c: "concat (map (\<lambda>datum.
         replicate (rows_of_datapoint example_externals (fst (projr (fst example_locals)))
            example_anchor_assignments_df datum)
           (field datum ''data_id'')) example_datapoints) =
       [PStr ''x1'', PStr ''x1'', PStr ''x2'', PStr ''x3'']"
    by code_simp
  from fetch_ble_datapoints_row_count [OF m' l', THEN conjunct2, THEN conjunct1]
  have 4: "map fst (rows example_table) = [PStr ''x1'', PStr ''x1'', PStr ''x2'', PStr ''x3'']"
    by (simp only: c)
  from 1 2 3 4 show ?thesis
    by (intro conjI)
qed

text \<open>
  Claim C1 as stated fails. In the concrete service one anchor device has two assignments,
  and the first datapoint names the anchor by its device ID: with no time window the
  datapoint matches both assignments, and the table has two rows for it, four rows for
  three datapoints.
\<close>

theorem fetch_ble_datapoints_duplicates_rows:
  "\<not> isl (fst (fetch_ble_datapoints example_externals example_client None None
      (PStr ''env-1'') PNone False False False
      default_tag_device_types default_anchor_device_types 100))
   \<and> snd (last (snd (fetch_ble_datapoints example_externals example_client None None
      (PStr ''env-1'') PNone False False False
      default_tag_device_types default_anchor_device_types 100))) = Inr example_datapoints
   \<and> length example_datapoints = 3
   \<and> length (rows (projr (fst (fetch_ble_datapoints example_externals example_client None None
      (PStr ''env-1'') PNone False False False
      default_tag_device_types default_anchor_device_types 100)))) = 4
   \<and> map fst (rows (projr (fst (fetch_ble_datapoints example_externals example_client None None
      (PStr ''env-1'') PNone False False False
      default_tag_device_types default_anchor_device_types 100))))
     = [PStr ''x1'', PStr ''x1'', PStr ''x2'', PStr ''x3'']"
  by code_simp

text \<open>
  Claim C7. In the table that \<^verbatim>\<open>fetch_ble_datapoints\<close> returns, every row stands for a row
  of the joined table \<^verbatim>\<open>datapoints_df\<close> of a datapoint of \<open>result\<close>, whose \<^verbatim>\<open>anchor_id\<close>
  is the one parsed from the payload of that datapoint. Either some row of the anchor
  assignment table has that \<^verbatim>\<open>anchor_id\<close> as its assignment ID or as its device ID, and the
  anchor columns of the row repeat the values of such a row; or no row of the anchor
  assignment table matches it in either way, and the anchor columns are empty.
\<close>

theorem fetch_ble_datapoints_anchor_columns:
  assumes "fetch_ble_datapoints ext cl start_time end_time environment_id environment_name
             return_tag_name return_tag_tag_id return_anchor_name
             tag_device_types anchor_device_types chunk_size' = (Inr out, tr)"
    and "fetch_ble_datapoints_locals ext cl start_time end_time environment_id environment_name
             tag_device_types anchor_device_types chunk_size' =
           (Inr (tag_assignments_df, anchor_assignments_df, result, datapoints_df), tr')"
  shows "length (rows out) = length (rows datapoints_df) \<and>
    (\<forall>(joined_row, out_row)\<in>set (zip (rows datapoints_df) (rows out)).
       fst out_row = fst joined_row \<and>
       (\<exists>datum\<in>set result.
          fst joined_row = field datum ''data_id'' \<and>
          cell (snd joined_row) ''anchor_id'' = field (payload ext datum) ''anchor_id'') \<and>
       ((\<exists>a\<in>set (rows anchor_assignments_df).
           anchor_matches (cell (snd joined_row) ''anchor_id'') a \<and>
           anchor_cells_from return_anchor_name a (snd out_row))
        \<or> ((\<forall>a\<in>set (rows anchor_assignments_df).
               \<not> anchor_matches (cell (snd joined_row) ''anchor_id'') a) \<and>
            anchor_cells_empty (snd out_row))))"
proof -
  let ?cols = "return_columns return_tag_name return_tag_tag_id return_anchor_name"
  let ?R = "\<lambda>(i, kvs). (i, map (\<lambda>c. (c, cell kvs c)) ?cols)"
  from assms have out: "out = reindex ?cols datapoints_df"
    by (auto simp: fetch_ble_datapoints_Inr)
  from assms(2) obtain tags anchors ts where
    A: "anchor_assignments_df = assignment_table (Some ''anchor'') anchors"
    and len: "length ts = length result"
    and J: "datapoints_df = joined_table ext tags anchors (zip result ts)"
    by (rule fetch_ble_datapoints_locals_Inr)
  have rows_out: "rows out = map ?R (rows datapoints_df)"
    by (simp add: out reindex_def)
  have rows_A: "set (rows anchor_assignments_df) = assignment_row (Some ''anchor'') ` set anchors"
    by (simp add: A assignment_table_def)
  have res: "set (map fst (zip result ts)) = set result"
    using len by (simp add: map_fst_zip)
  show ?thesis
  proof (intro conjI ballI)
    show "length (rows out) = length (rows datapoints_df)"
      by (simp add: rows_out)
  next
    fix p
    assume p: "p \<in> set (zip (rows datapoints_df) (rows out))"
    obtain j out_row where jo: "p = (j, out_row)" by (cases p)
    from p jo zip_map_same [of j out_row "rows datapoints_df" ?R]
    have j: "j \<in> set (rows datapoints_df)" and o: "out_row = ?R j"
      by (simp_all add: rows_out)
    from o have fo: "fst out_row = fst j"
      and so: "snd out_row = map (\<lambda>c. (c, cell (snd j) c)) ?cols"
      by (simp_all add: split_def)
    from j have "j \<in> set (rows (joined_table ext tags anchors (zip result ts)))"
      by (simp only: J)
    note jr = joined_table_row [OF this]
    from jr [THEN conjunct1] have d: "\<exists>datum\<in>set result.
          fst j = field datum ''data_id'' \<and>
          cell (snd j) ''anchor_id'' = field (payload ext datum) ''anchor_id''"
      by (simp only: res)
    have c: "(\<exists>a\<in>set (rows anchor_assignments_df).
           anchor_matches (cell (snd j) ''anchor_id'') a \<and>
           anchor_cells_from return_anchor_name a (snd out_row))
        \<or> ((\<forall>a\<in>set (rows anchor_assignments_df).
               \<not> anchor_matches (cell (snd j) ''anchor_id'') a) \<and>
            anchor_cells_empty (snd out_row))"
      using jr [THEN conjunct2]
    proof
      assume "\<exists>a\<in>set anchors.
        anchor_matches (cell (snd j) ''anchor_id'') (assignment_row (Some ''anchor'') a) \<and>
        anchor_cells_from True (assignment_row (Some ''anchor'') a) (snd j)"
      then obtain a where a: "a \<in> set anchors"
        "anchor_matches (cell (snd j) ''anchor_id'') (assignment_row (Some ''anchor'') a)"
        "anchor_cells_from True (assignment_row (Some ''anchor'') a) (snd j)"
        by (elim bexE conjE)
      from a(1) have "assignment_row (Some ''anchor'') a \<in> set (rows anchor_assignments_df)"
        by (simp add: rows_A)
      moreover from a(3)
      have "anchor_cells_from return_anchor_name (assignment_row (Some ''anchor'') a)
              (snd out_row)"
        by (simp only: so reindexed_anchor_cells_from)
      ultimately show ?thesis
        using a(2) by (intro disjI1 bexI [of _ "assignment_row (Some ''anchor'') a"] conjI)
    next
      assume n: "(\<forall>a\<in>set anchors.
            \<not> anchor_matches (cell (snd j) ''anchor_id'') (assignment_row (Some ''anchor'') a))
         \<and> anchor_cells_empty (snd j)"
      then have "\<forall>a\<in>set (rows anchor_assignments_df).
               \<not> anchor_matches (cell (snd j) ''anchor_id'') a"
        by (simp add: rows_A)
      moreover from n have "anchor_cells_empty (snd out_row)"
        by (simp only: so reindexed_anchor_cells_empty)
      ultimately show ?thesis
        by (intro disjI2 conjI)
    qed
    from fo d c show "case p of (joined_row, out_row) \<Rightarrow>
       fst out_row = fst joined_row \<and>
       (\<exists>datum\<in>set result.
          fst joined_row = field datum ''data_id'' \<and>
          cell (snd joined_row) ''anchor_id'' = field (payload ext datum) ''anchor_id'') \<and>
       ((\<exists>a\<in>set (rows anchor_assignments_df).
           anchor_matches (cell (snd joined_row) ''anchor_id'') a \<and>
           anchor_cells_from return_anchor_name a (snd out_row))
        \<or> ((\<forall>a\<in>set (rows anchor_assignments_df).
               \<not> anchor_matches (cell (snd joined_row) ''anchor_id'') a) \<and>
            anchor_cells_empty (snd out_row)))"
      by (simp only: jo prod.case)
  qed
qed

theorem fetch_ble_datapoints_anchor_columns_witness:
  "length (rows example_table) = length (rows example_datapoints_df)
   \<and> map (\<lambda>r. (fst r, cell (snd r) ''anchor_id'')) (rows example_datapoints_df) =
       [(PStr ''x1'', PStr ''d1''), (PStr ''x1'', PStr ''d1''),
        (PStr ''x2'', PStr ''a2''), (PStr ''x3'', PStr ''zz'')]
   \<and> map (\<lambda>r. (cell (snd r) ''anchor_assignment_id'', cell (snd r) ''anchor_device_id'',
                 cell (snd r) ''anchor_name'')) (rows example_table) =
       [(PStr ''a1'', PStr ''d1'', PStr ''name of d1''),
        (PStr ''a2'', PStr ''d1'', PStr ''name of d1''),
        (PStr ''a2'', PStr ''d1'', PStr ''name of d1''),
        (PNaN, PNaN, PNaN)]"
proof -
  have "case fst example_fetch of Inr x \<Rightarrow> True | Inl e \<Rightarrow> False"
    by code_simp
  then have "example_fetch = (Inr (projr (fst example_fetch)), snd example_fetch)"
    by (rule io_Inr_expand)
  then have m: "fetch_ble_datapoints example_externals example_client None None
       (PStr ''env-1'') PNone False False True
       default_tag_device_types default_anchor_device_types 100 =
     (Inr example_table, snd example_fetch)"
    by (simp only: example_table_def) (simp only: example_fetch_def)
  have "case fst example_locals of Inr x \<Rightarrow> True | Inl e \<Rightarrow> False"
    by code_simp
  then have "example_locals =
     (Inr (fst (projr (fst example_locals)), fst (snd (projr (fst example_locals))),
           fst (snd (snd (projr (fst example_locals)))),
           snd (snd (snd (projr (fst example_locals))))), snd example_locals)"
    by (rule locals_Inr_expand)
  moreover have "fst (snd (snd (projr (fst example_locals)))) = example_datapoints"
    by code_simp
  ultimately have l: "fetch_ble_datapoints_locals example_externals example_client None None
       (PStr ''env-1'') PNone default_tag_device_types default_anchor_device_types 100 =
     (Inr (fst (projr (fst example_locals)), example_anchor_assignments_df,
           example_datapoints, example_datapoints_df), snd example_locals)"
    by (simp only: example_anchor_assignments_df_def example_datapoints_df_def)
       (simp only: example_locals_def)
  have 1: "map (\<lambda>r. (fst r, cell (snd r) ''anchor_id'')) (rows example_datapoints_df) =
       [(PStr ''x1'', PStr ''d1''), (PStr ''x1'', PStr ''d1''),
        (PStr ''x2'', PStr ''a2''), (PStr ''x3'', PStr ''zz'')]"
    by code_simp
  have 2: "map (\<lambda>r. (cell (snd r) ''anchor_assignment_id'', cell (snd r) ''anchor_device_id'',
                 cell (snd r) ''anchor_name'')) (rows example_table) =
       [(PStr ''a1'', PStr ''d1'', PStr ''name of d1''),
        (PStr ''a2'', PStr ''d1'', PStr ''name of d1''),
        (PStr ''a2'', PStr ''d1'', PStr ''name of d1''),
        (PNaN, PNaN, PNaN)]"
    by code_simp
  from fetch_ble_datapoints_anchor_columns [OF m l] 1 2 show ?thesis
    by (intro conjI) (elim conjE, assumption)+
qed

text \<open>
  Claim C10. With an \<^verbatim>\<open>end\<close> given, every \<^verbatim>\<open>searchDatapoints\<close> call that
  \<^verbatim>\<open>fetch_ble_datapoints\<close> makes carries the query list that
  \<^verbatim>\<open>datapoint_query_list\<close> builds, and the last filter of that list compares the field
  \<^verbatim>\<open>timestamp\<close> by the operator \<^verbatim>\<open>LTE\<close> with \<^verbatim>\<open>to_honeycomb_datetime(end)\<close>. Read
  as comparisons of instants, the filters of the list admit the timestamp equal to
  \<^verbatim>\<open>end\<close> (a \<^verbatim>\<open>start\<close>, when given, being no later than \<^verbatim>\<open>end\<close>): the datapoint
  window is closed at \<^verbatim>\<open>end\<close>.
\<close>

theorem datapoint_query_closed_at_end:
  assumes "(call, response) \<in> set (snd (fetch_ble_datapoints ext cl start_time (Some e)
             environment_id environment_name return_tag_name return_tag_tag_id
             return_anchor_name tag_device_types anchor_device_types chunk_size'))"
    and "request_name call = ''searchDatapoints''"
  shows "\<exists>ids. call = datapoints_call ext start_time (Some e) ids chunk_size' \<and>
     last (datapoint_query_list ext start_time (Some e) ids) =
       PDict [(''field'', PStr ''timestamp''), (''operator'', PStr ''LTE''),
              (''value'', to_honeycomb_datetime ext e)] \<and>
     (to_honeycomb_datetime ext = PDatetime \<and> (\<forall>s. start_time = Some s \<longrightarrow> s \<le> e) \<longrightarrow>
        query_admits_timestamp (datapoint_query_list ext start_time (Some e) ids) e)"
proof -
  from assms obtain ids where "call = datapoints_call ext start_time (Some e) ids chunk_size'"
    using trace_fetch_ble_datapoints_locals [of call response ext cl start_time "Some e"
        environment_id environment_name tag_device_types anchor_device_types chunk_size']
    by (auto simp only: snd_fetch_ble_datapoints)
  then show ?thesis
    using last_datapoint_query_list [of ext start_time e ids]
      query_admits_end [of ext start_time e ids]
    by (intro exI [of _ ids] conjI impI) (elim conjE | assumption)+
qed

theorem datapoint_query_closed_at_end_witness:
  "(datapoints_call example_externals (Some 20) (Some 70) [PStr ''t1''] 100,
    Inr example_datapoints)
     \<in> set (snd (fetch_ble_datapoints example_externals example_client (Some 20) (Some 70)
          (PStr ''env-1'') PNone False False False
          default_tag_device_types default_anchor_device_types 100))
   \<and> request_name (datapoints_call example_externals (Some 20) (Some 70) [PStr ''t1''] 100)
       = ''searchDatapoints''
   \<and> (\<exists>ids. datapoints_call example_externals (Some 20) (Some 70) [PStr ''t1''] 100 =
              datapoints_call example_externals (Some 20) (Some 70) ids 100 \<and>
        last (datapoint_query_list example_externals (Some 20) (Some 70) ids) =
          PDict [(''field'', PStr ''timestamp''), (''operator'', PStr ''LTE''),
                 (''value'', PDatetime 70)] \<and>
        query_admits_timestamp
          (datapoint_query_list example_externals (Some 20) (Some 70) ids) 70)"
proof -
  let ?c = "datapoints_call example_externals (Some 20) (Some 70) [PStr ''t1''] 100"
  have m: "(?c, Inr example_datapoints)
     \<in> set (snd (fetch_ble_datapoints example_externals example_client (Some 20) (Some 70)
          (PStr ''env-1'') PNone False False False
          default_tag_device_types default_anchor_device_types 100))"
    by code_simp
  have n: "request_name ?c = ''searchDatapoints''"
    by (simp add: datapoints_call_def search_objects_call_def)
  have h: "to_honeycomb_datetime example_externals = PDatetime"
    "\<forall>s. Some (20::int) = Some s \<longrightarrow> s \<le> 70"
    by (simp_all add: example_externals_def)
  from datapoint_query_closed_at_end [OF m n] obtain ids where
    i: "?c = datapoints_call example_externals (Some 20) (Some 70) ids 100"
      "last (datapoint_query_list example_externals (Some 20) (Some 70) ids) =
       PDict [(''field'', PStr ''timestamp''), (''operator'', PStr ''LTE''),
              (''value'', to_honeycomb_datetime example_externals 70)]"
      "query_admits_timestamp
          (datapoint_query_list example_externals (Some 20) (Some 70) ids) 70"
    using h by (elim exE conjE) simp
  from i(2) have "last (datapoint_query_list example_externals (Some 20) (Some 70) ids) =
          PDict [(''field'', PStr ''timestamp''), (''operator'', PStr ''LTE''),
                 (''value'', PDatetime 70)]"
    by (simp only: h(1))
  with m n i(1,3) show ?thesis
    by (intro conjI exI [of _ ids])
qed

end
